theory Spec2Isabelle
  imports Main "HOL-Library.AList"
begin

section \<open>The monit exporter: data model\<close>

text \<open>
  The exporter is a Prometheus collector.  On every collect request it fetches the status
  document of a monit daemon (XML over HTTP GET) and the list of connected users of an
  ejabberd server (JSON over HTTP POST), and stores what it decoded in four gauges.

  Go's \<^verbatim>\<open>int\<close> fields are modelled as \<^typ>\<open>int\<close>; the program does no arithmetic on
  them, and the XML decoder below rejects numerals outside the 64-bit range as
  \<^verbatim>\<open>strconv.ParseInt\<close> does.  Go strings and byte slices are \<^typ>\<open>string\<close>.
\<close>

text \<open>The values of Go's \<^verbatim>\<open>error\<close> interface that the program can meet.\<close>

datatype go_error =
    URLError            \<comment> \<open>\<^verbatim>\<open>http.NewRequest\<close>: the URL or the method does not parse\<close>
  | TransportError      \<comment> \<open>\<^verbatim>\<open>client.Do\<close>: connection refused, TLS failure, timeout\<close>
  | ReadError           \<comment> \<open>\<^verbatim>\<open>ioutil.ReadAll\<close>: the body breaks off\<close>
  | EOF                 \<comment> \<open>\<^verbatim>\<open>io.EOF\<close>: the XML input has no element\<close>
  | SyntaxError         \<comment> \<open>\<^verbatim>\<open>xml.SyntaxError\<close> or \<^verbatim>\<open>json.SyntaxError\<close>\<close>
  | NumError            \<comment> \<open>\<^verbatim>\<open>strconv.NumError\<close>: an integer field does not parse\<close>
  | UnmarshalTypeError  \<comment> \<open>\<^verbatim>\<open>json.UnmarshalTypeError\<close>\<close>

record Config =
  listen_address :: string
  metrics_path :: string
  ignore_ssl :: bool
  monit_scrape_uri :: string
  monit_user :: string
  monit_password :: string
  ejabberd_uri :: string

record monitService =
  Type :: int
  Name :: string
  Status :: int
  Monitored :: string

record monitXML =
  MonitServices :: "monitService list"

record EjabberdConnectedUserInfo =
  Jid :: string
  Connection :: string
  Ip :: string
  Port :: int
  Priority :: int
  Node :: string
  Uptime :: int

text \<open>
  \<^verbatim>\<open>serviceTypes\<close> is a Go map; the lookup of a key that is not in it gives the zero
  value of the element type, the empty string.
\<close>

definition serviceTypes :: "int \<Rightarrow> string" where
  "serviceTypes t =
     (if t = 0 then ''filesystem''
      else if t = 1 then ''directory''
      else if t = 2 then ''file''
      else if t = 3 then ''program with pidfile''
      else if t = 4 then ''remote host''
      else if t = 5 then ''system''
      else if t = 6 then ''fifo''
      else if t = 7 then ''program with path''
      else if t = 8 then ''network''
      else [])"

section \<open>Decoding the monit status document\<close>

text \<open>
  \<^verbatim>\<open>ParseMonitStatus\<close> hands its bytes to \<^verbatim>\<open>encoding/xml\<close>.  The library is not part of
  the repository.  What follows computes what \<^verbatim>\<open>Decoder.Decode\<close> into a \<^verbatim>\<open>monitXML\<close>
  gives on the documents made of elements, quoted attributes and character data in
  ASCII, as far as the decoder reads them: it reads no further than the end tag of the
  root element.  Where a document goes beyond that (a byte above 127, an entity
  reference, a colon in a name, a processing instruction such as the XML declaration, a
  comment, a directive or a CDATA section) the computation stops with \<open>Beyond\<close>, which
  is no error of the library: for such a document the answer of the library is taken
  from the world (see \<open>ParseMonitStatus\<close> below).
\<close>

datatype stop =
    Stop go_error   \<comment> \<open>the library stops with this error (\<^verbatim>\<open>io.EOF\<close> at the end of the input)\<close>
  | Beyond          \<comment> \<open>the document goes beyond what is computed here\<close>

subsection \<open>Tokens\<close>

datatype token =
    StartElement string "(string \<times> string) list"
  | EndElement string
  | CharData string

definition isNameByte :: "char \<Rightarrow> bool" where
  "isNameByte c =
     (let n = (of_char c :: nat) in
      65 \<le> n \<and> n \<le> 90 \<or> 97 \<le> n \<and> n \<le> 122 \<or> 48 \<le> n \<and> n \<le> 57
      \<or> c = CHR ''_'' \<or> c = CHR '':'' \<or> c = CHR ''.'' \<or> c = CHR ''-'')"

definition isNameStart :: "char \<Rightarrow> bool" where
  "isNameStart c =
     (let n = (of_char c :: nat) in
      65 \<le> n \<and> n \<le> 90 \<or> 97 \<le> n \<and> n \<le> 122 \<or> c = CHR ''_'' \<or> c = CHR '':'')"

definition RuneSelf :: nat where
  "RuneSelf = 128"

definition inName :: "char \<Rightarrow> bool" where
  "inName c = (RuneSelf \<le> of_char c \<or> isNameByte c)"

definition isSpace :: "char \<Rightarrow> bool" where
  "isSpace c = (c = CHR '' '' \<or> c = CHR 0x0D \<or> c = CHR 0x0A \<or> c = CHR 0x09)"

text \<open>
  \<^verbatim>\<open>Decoder.name\<close>: the bytes up to the first ASCII byte that is not a name byte; the
  input must go on after the name, and the name must start with a letter or an underscore.
\<close>

definition xml_name :: "string \<Rightarrow> stop + (string \<times> string)" where
  "xml_name s =
     (let n = takeWhile inName s; r = dropWhile inName s in
      if list_ex (\<lambda>c. RuneSelf \<le> of_char c \<or> c = CHR '':'') n then Inl Beyond
      else if n = [] \<or> r = [] then Inl (Stop SyntaxError)
      else if \<not> isNameStart (hd n) then Inl (Stop SyntaxError)
      else Inr (n, r))"

text \<open>
  \<^verbatim>\<open>Decoder.text\<close>: character data may not hold \<^verbatim>\<open>]]>\<close>; a carriage return, alone or
  before a line feed, becomes a line feed; of the control characters only tab and the
  line ends are legal.
\<close>

fun has_cdata_end :: "string \<Rightarrow> bool" where
  "has_cdata_end (a # b # c # r) =
     (a = CHR '']'' \<and> b = CHR '']'' \<and> c = CHR ''>'' \<or> has_cdata_end (b # c # r))"
| "has_cdata_end _ = False"

fun newlines :: "string \<Rightarrow> string" where
  "newlines (a # b # r) =
     (if a = CHR 0x0D \<and> b = CHR 0x0A then CHR 0x0A # newlines r
      else if a = CHR 0x0D then CHR 0x0A # newlines (b # r)
      else a # newlines (b # r))"
| "newlines [a] = (if a = CHR 0x0D then [CHR 0x0A] else [a])"
| "newlines [] = []"

definition isInCharacterRange :: "char \<Rightarrow> bool" where
  "isInCharacterRange c = (c = CHR 0x09 \<or> c = CHR 0x0A \<or> c = CHR 0x0D \<or> 32 \<le> (of_char c :: nat))"

definition text_data :: "string \<Rightarrow> stop + string" where
  "text_data run =
     (if list_ex (\<lambda>c. RuneSelf \<le> of_char c \<or> c = CHR ''&'') run then Inl Beyond
      else if has_cdata_end run then Inl (Stop SyntaxError)
      else if \<not> list_all isInCharacterRange (newlines run) then Inl (Stop SyntaxError)
      else Inr (newlines run))"

text \<open>An attribute value stands in double or single quotes and holds no \<^verbatim>\<open><\<close>.\<close>

definition quoted :: "char \<Rightarrow> string \<Rightarrow> stop + (string \<times> string)" where
  "quoted q s =
     (case dropWhile (\<lambda>c. c \<noteq> q \<and> c \<noteq> CHR ''<'') s of
        [] \<Rightarrow> Inl (Stop SyntaxError)
      | c # r \<Rightarrow>
          if c = CHR ''<'' then Inl (Stop SyntaxError)
          else (case text_data (takeWhile (\<lambda>c. c \<noteq> q \<and> c \<noteq> CHR ''<'') s) of
                  Inl err \<Rightarrow> Inl err
                | Inr d \<Rightarrow> Inr (d, r)))"

definition attrval :: "string \<Rightarrow> stop + (string \<times> string)" where
  "attrval s =
     (case s of
        [] \<Rightarrow> Inl (Stop SyntaxError)
      | q # s' \<Rightarrow>
          if q = CHR 0x22 \<or> q = CHR 0x27 then quoted q s' else Inl (Stop SyntaxError))"

text \<open>
  The attributes of a start tag, up to its \<^verbatim>\<open>>\<close> or \<^verbatim>\<open>/>\<close>; the flag says that the
  element closed itself.
\<close>

function attrs :: "string \<Rightarrow> stop + ((string \<times> string) list \<times> bool \<times> string)" where
  "attrs s =
     (case dropWhile isSpace s of
        [] \<Rightarrow> Inl (Stop SyntaxError)
      | b # r \<Rightarrow>
          if b = CHR ''/'' then
            (case r of [] \<Rightarrow> Inl (Stop SyntaxError)
             | g # r' \<Rightarrow> if g = CHR ''>'' then Inr ([], True, r') else Inl (Stop SyntaxError))
          else if b = CHR ''>'' then Inr ([], False, r)
          else
            (case xml_name (b # r) of
               Inl err \<Rightarrow> Inl err
             | Inr (k, r1) \<Rightarrow>
                 (case dropWhile isSpace r1 of
                    [] \<Rightarrow> Inl (Stop SyntaxError)
                  | e # r2 \<Rightarrow>
                      if e \<noteq> CHR ''='' then Inl (Stop SyntaxError)
                      else
                        (case attrval (dropWhile isSpace r2) of
                           Inl err \<Rightarrow> Inl err
                         | Inr (v, r3) \<Rightarrow>
                             (case attrs r3 of
                                Inl err \<Rightarrow> Inl err
                              | Inr (as, closed, r4) \<Rightarrow> Inr ((k, v) # as, closed, r4))))))"
  by pat_completeness auto

lemma xml_name_length: "xml_name s = Inr (n, r) \<Longrightarrow> length r \<le> length s"
  unfolding xml_name_def Let_def
  by (simp split: if_splits) (metis length_dropWhile_le)

lemma dropWhile_Cons_length:
  "dropWhile P xs = c # r \<Longrightarrow> length r < length xs"
  using length_dropWhile_le [of P xs] by simp

lemma quoted_length: "quoted q s = Inr (v, r) \<Longrightarrow> length r < length s"
  unfolding quoted_def
  by (auto split: list.splits if_splits sum.splits dest: dropWhile_Cons_length)

lemma attrval_length: "attrval s = Inr (v, r) \<Longrightarrow> length r < length s"
  unfolding attrval_def
  by (auto split: list.splits if_splits dest: quoted_length)

termination attrs
proof (relation "measure length", goal_cases)
  case 1
  show ?case by simp
next
  case (2 s b r k_r1 k r1 e r2 v_r3 v r3)
  have "length r3 < length (dropWhile isSpace r2)"
    using 2 attrval_length by metis
  also have "\<dots> \<le> length r2"
    by (rule length_dropWhile_le)
  also have "\<dots> < length (dropWhile isSpace r1)"
    using 2 by simp
  also have "\<dots> \<le> length r1"
    by (rule length_dropWhile_le)
  also have "\<dots> \<le> length (b # r)"
    using 2 xml_name_length by metis
  also have "\<dots> \<le> length s"
    using 2 length_dropWhile_le [of isSpace s] by simp
  finally show ?case by simp
qed

declare attrs.simps [simp del]

lemma attrs_length: "attrs s = Inr (as, closed, r) \<Longrightarrow> length r < length s"
proof (induction s arbitrary: as closed r rule: attrs.induct)
  case (1 s)
  from "1.prems" obtain b t where bt: "dropWhile isSpace s = b # t"
    by (subst (asm) attrs.simps) (auto split: list.splits)
  have lt: "length t < length s"
    using bt by (rule dropWhile_Cons_length)
  show ?case
  proof (cases "b = CHR ''/'' \<or> b = CHR ''>''")
    case True
    with "1.prems" bt have "length r \<le> length t"
      by (subst (asm) attrs.simps) (auto split: list.splits if_splits)
    with lt show ?thesis by simp
  next
    case False
    then have b1: "b \<noteq> CHR ''/''" and b2: "b \<noteq> CHR ''>''"
      by simp_all
    with "1.prems" bt obtain k r1 e r2 v r3 as' where
      nm: "xml_name (b # t) = Inr (k, r1)" and
      eq: "dropWhile isSpace r1 = e # r2" and
      e: "\<not> e \<noteq> CHR ''=''" and
      av: "attrval (dropWhile isSpace r2) = Inr (v, r3)" and
      rec: "attrs r3 = Inr (as', closed, r)"
      by (subst (asm) attrs.simps) (auto split: list.splits if_splits sum.splits)
    have "length r < length r3"
      by (rule "1.IH" [OF bt b1 b2 nm refl eq e av refl rec])
    also have "\<dots> < length (dropWhile isSpace r2)"
      using av by (rule attrval_length)
    also have "\<dots> \<le> length r2"
      by (rule length_dropWhile_le)
    also have "\<dots> < length r1"
      using eq by (rule dropWhile_Cons_length)
    also have "\<dots> \<le> length (b # t)"
      using nm by (rule xml_name_length)
    finally show ?thesis using lt by simp
  qed
qed


text \<open>
  \<^verbatim>\<open>Decoder.rawToken\<close>, run to the end of the input: the tokens read, and the error that
  ended the reading (\<open>Stop EOF\<close> at the end of the input).  An element that closes
  itself gives its start and its end.
\<close>

fun emit :: "token \<Rightarrow> token list \<times> stop \<Rightarrow> token list \<times> stop" where
  "emit t (ts, e) = (t # ts, e)"

function rawTokens :: "string \<Rightarrow> token list \<times> stop" where
  "rawTokens [] = ([], Stop EOF)"
| "rawTokens (c # s) =
     (if c \<noteq> CHR ''<'' then
        (case text_data (c # takeWhile (\<lambda>x. x \<noteq> CHR ''<'') s) of
           Inl err \<Rightarrow> ([], err)
         | Inr d \<Rightarrow> emit (CharData d) (rawTokens (dropWhile (\<lambda>x. x \<noteq> CHR ''<'') s)))
      else
        (case s of
           [] \<Rightarrow> ([], Stop SyntaxError)
         | b # s' \<Rightarrow>
             if b = CHR ''/'' then
               (case xml_name s' of
                  Inl err \<Rightarrow> ([], err)
                | Inr (n, r) \<Rightarrow>
                    (case dropWhile isSpace r of
                       [] \<Rightarrow> ([], Stop SyntaxError)
                     | g # r' \<Rightarrow>
                         if g = CHR ''>'' then emit (EndElement n) (rawTokens r')
                         else ([], Stop SyntaxError)))
             else if b = CHR ''?'' \<or> b = CHR ''!'' then ([], Beyond)
             else
               (case xml_name s of
                  Inl err \<Rightarrow> ([], err)
                | Inr (n, r) \<Rightarrow>
                    (case attrs r of
                       Inl err \<Rightarrow> ([], err)
                     | Inr (as, closed, r') \<Rightarrow>
                         emit (StartElement n as)
                           (if closed then emit (EndElement n) (rawTokens r')
                            else rawTokens r')))))"
  by pat_completeness auto
termination
proof (relation "measure length", goal_cases)
  case 1
  show ?case by simp
next
  case (2 c s d)
  show ?case
    using length_dropWhile_le [of "\<lambda>x. x \<noteq> CHR ''<''" s] by simp
next
  case (3 c s b s' nr n r g r')
  have "length r' < length r"
    using 3 dropWhile_Cons_length by metis
  also have "\<dots> \<le> length s'"
    using 3 xml_name_length by metis
  finally show ?case using 3 by simp
next
  case (4 c s b s' nr n r x as cr closed r')
  have "length r' < length r"
    using 4 attrs_length by metis
  also have "\<dots> \<le> length s"
    using 4 xml_name_length by metis
  finally show ?case by simp
next
  case (5 c s b s' nr n r x as cr closed r')
  have "length r' < length r"
    using 5 attrs_length by metis
  also have "\<dots> \<le> length s"
    using 5 xml_name_length by metis
  finally show ?case by simp
qed

subsection \<open>Unmarshalling\<close>

text \<open>
  \<^verbatim>\<open>Decoder.Token\<close> checks that every end tag closes the element that is open, and turns
  the end of the input inside an element into a syntax error.  Here each function below
  knows the name \<open>n\<close> of the element it is in and \<open>e\<close>, the error that ended the tokens.
\<close>

definition unexpectedEOF :: "stop \<Rightarrow> stop" where
  "unexpectedEOF e = (if e = Stop EOF then Stop SyntaxError else e)"

fun Skip :: "string \<Rightarrow> string list \<Rightarrow> stop \<Rightarrow> token list \<Rightarrow> stop + token list" where
  "Skip n stk e [] = Inl (unexpectedEOF e)"
| "Skip n stk e (CharData d # ts) = Skip n stk e ts"
| "Skip n stk e (StartElement k a # ts) = Skip k (n # stk) e ts"
| "Skip n stk e (EndElement m # ts) =
     (if m \<noteq> n then Inl (Stop SyntaxError)
      else case stk of [] \<Rightarrow> Inr ts | n' # stk' \<Rightarrow> Skip n' stk' e ts)"

lemma Skip_length: "Skip n stk e ts = Inr r \<Longrightarrow> length r < length ts"
proof (induction ts arbitrary: n stk)
  case Nil
  then show ?case by simp
next
  case (Cons t ts)
  show ?case
  proof (cases t)
    case (StartElement k a)
    with Cons.prems have "Skip k (n # stk) e ts = Inr r" by simp
    then have "length r < length ts" by (rule Cons.IH)
    then show ?thesis by simp
  next
    case (EndElement m)
    show ?thesis
    proof (cases stk)
      case Nil
      with Cons.prems EndElement show ?thesis by (simp split: if_splits)
    next
      case (Cons n' stk')
      with Cons.prems EndElement have "Skip n' stk' e ts = Inr r"
        by (simp split: if_splits)
      then have "length r < length ts" by (rule Cons.IH)
      then show ?thesis by simp
    qed
  next
    case (CharData d)
    with Cons.prems have "Skip n stk e ts = Inr r" by simp
    then have "length r < length ts" by (rule Cons.IH)
    then show ?thesis by simp
  qed
qed

text \<open>
  An element unmarshalled into a string or an integer field: its character data are
  collected, the elements inside it are skipped.
\<close>

function unmarshalData ::
  "string \<Rightarrow> string \<Rightarrow> stop \<Rightarrow> token list \<Rightarrow> stop + (string \<times> token list)" where
  "unmarshalData n data e [] = Inl (unexpectedEOF e)"
| "unmarshalData n data e (CharData d # ts) = unmarshalData n (data @ d) e ts"
| "unmarshalData n data e (EndElement m # ts) =
     (if m \<noteq> n then Inl (Stop SyntaxError) else Inr (data, ts))"
| "unmarshalData n data e (StartElement k a # ts) =
     (case Skip k [] e ts of
        Inl err \<Rightarrow> Inl err
      | Inr ts' \<Rightarrow> unmarshalData n data e ts')"
  by pat_completeness auto
termination
  by (relation "measure (\<lambda>(n, data, e, ts). length ts)") (auto dest: Skip_length)

lemma unmarshalData_length:
  "unmarshalData n data e ts = Inr (d, r) \<Longrightarrow> length r < length ts"
proof (induction n data e ts rule: unmarshalData.induct)
  case (4 n data e k a ts)
  then obtain ts' where sk: "Skip k [] e ts = Inr ts'" and
      rec: "unmarshalData n data e ts' = Inr (d, r)"
    by (auto split: sum.splits)
  have "length r < length ts'" using sk rec by (rule "4.IH")
  also have "\<dots> < length ts" using sk by (rule Skip_length)
  finally show ?case by simp
qed (auto split: if_splits)

text \<open>
  \<^verbatim>\<open>copyValue\<close> into an \<^verbatim>\<open>int\<close>: empty data give 0, anything else goes through
  \<^verbatim>\<open>strconv.ParseInt(strings.TrimSpace(src), 10, 64)\<close>.
\<close>

definition isDigit :: "char \<Rightarrow> bool" where
  "isDigit c = (48 \<le> (of_char c :: nat) \<and> (of_char c :: nat) \<le> 57)"

definition digitsValue :: "string \<Rightarrow> int" where
  "digitsValue ds = foldl (\<lambda>v c. 10 * v + (int (of_char c) - 48)) 0 ds"

definition ParseInt :: "string \<Rightarrow> go_error + int" where
  "ParseInt s =
     (case s of
        [] \<Rightarrow> Inl NumError
      | c # r \<Rightarrow>
          (let neg = (c = CHR ''-'');
               ds = (if c = CHR ''+'' \<or> c = CHR ''-'' then r else s)
           in if ds = [] \<or> \<not> list_all isDigit ds then Inl NumError
              else if \<not> neg \<and> 2 ^ 63 \<le> digitsValue ds then Inl NumError
              else if neg \<and> 2 ^ 63 < digitsValue ds then Inl NumError
              else Inr (if neg then - digitsValue ds else digitsValue ds)))"

definition isTrimSpace :: "char \<Rightarrow> bool" where
  "isTrimSpace c =
     (c = CHR 0x09 \<or> c = CHR 0x0A \<or> c = CHR 0x0B \<or> c = CHR 0x0C \<or> c = CHR 0x0D \<or> c = CHR '' '')"

definition TrimSpace :: "string \<Rightarrow> string" where
  "TrimSpace s = rev (dropWhile isTrimSpace (rev (dropWhile isTrimSpace s)))"

definition copyInt :: "string \<Rightarrow> go_error + int" where
  "copyInt src = (if src = [] then Inr 0 else ParseInt (TrimSpace src))"

text \<open>
  A \<^verbatim>\<open>service\<close> element into a \<^verbatim>\<open>monitService\<close>: the attribute \<^verbatim>\<open>type\<close>, then the
  children \<^verbatim>\<open>name\<close>, \<^verbatim>\<open>status\<close> and \<^verbatim>\<open>monitor\<close>; every other child is skipped.
\<close>

fun unmarshalAttrs :: "(string \<times> string) list \<Rightarrow> monitService \<Rightarrow> stop + monitService" where
  "unmarshalAttrs [] sv = Inr sv"
| "unmarshalAttrs ((k, v) # as) sv =
     (if k = ''type'' then
        (case copyInt v of
           Inl err \<Rightarrow> Inl (Stop err)
         | Inr i \<Rightarrow> unmarshalAttrs as (sv\<lparr>Type := i\<rparr>))
      else unmarshalAttrs as sv)"

function unmarshalService ::
  "string \<Rightarrow> monitService \<Rightarrow> stop \<Rightarrow> token list \<Rightarrow> stop + (monitService \<times> token list)" where
  "unmarshalService n sv e [] = Inl (unexpectedEOF e)"
| "unmarshalService n sv e (CharData d # ts) = unmarshalService n sv e ts"
| "unmarshalService n sv e (EndElement m # ts) =
     (if m \<noteq> n then Inl (Stop SyntaxError) else Inr (sv, ts))"
| "unmarshalService n sv e (StartElement k a # ts) =
     (if k = ''name'' then
        (case unmarshalData k [] e ts of
           Inl err \<Rightarrow> Inl err
         | Inr (d, ts') \<Rightarrow> unmarshalService n (sv\<lparr>Name := d\<rparr>) e ts')
      else if k = ''status'' then
        (case unmarshalData k [] e ts of
           Inl err \<Rightarrow> Inl err
         | Inr (d, ts') \<Rightarrow>
             (case copyInt d of
                Inl err \<Rightarrow> Inl (Stop err)
              | Inr i \<Rightarrow> unmarshalService n (sv\<lparr>Status := i\<rparr>) e ts'))
      else if k = ''monitor'' then
        (case unmarshalData k [] e ts of
           Inl err \<Rightarrow> Inl err
         | Inr (d, ts') \<Rightarrow> unmarshalService n (sv\<lparr>Monitored := d\<rparr>) e ts')
      else
        (case Skip k [] e ts of
           Inl err \<Rightarrow> Inl err
         | Inr ts' \<Rightarrow> unmarshalService n sv e ts'))"
  by pat_completeness auto
termination
  by (relation "measure (\<lambda>(n, sv, e, ts). length ts)")
     (auto dest: Skip_length unmarshalData_length)


lemma unmarshalService_length:
  "unmarshalService n sv e ts = Inr (sv', r) \<Longrightarrow> length r < length ts"
proof (induction n sv e ts rule: unmarshalService.induct)
  case (4 n sv e k a ts)
  consider (name) "k = ''name''"
    | (status) "k \<noteq> ''name''" "k = ''status''"
    | (monitor) "k \<noteq> ''name''" "k \<noteq> ''status''" "k = ''monitor''"
    | (other) "k \<noteq> ''name''" "k \<noteq> ''status''" "k \<noteq> ''monitor''"
    by blast
  then show ?case
  proof cases
    case name
    from "4.prems" obtain d ts' where
      ud: "unmarshalData k [] e ts = Inr (d, ts')" and
      rec: "unmarshalService n (sv\<lparr>Name := d\<rparr>) e ts' = Inr (sv', r)"
      unfolding unmarshalService.simps if_P [OF name]
      by (cases "unmarshalData k [] e ts") auto
    have "length r < length ts'"
      using name ud refl rec by (rule "4.IH"(1))
    also have "\<dots> < length ts" using ud by (rule unmarshalData_length)
    finally show ?thesis by simp
  next
    case status
    from "4.prems" obtain d ts' where
      ud: "unmarshalData k [] e ts = Inr (d, ts')" and
      rest: "(case copyInt d of Inl err \<Rightarrow> Inl (Stop err)
              | Inr i \<Rightarrow> unmarshalService n (sv\<lparr>Status := i\<rparr>) e ts') = Inr (sv', r)"
      unfolding unmarshalService.simps if_not_P [OF status(1)] if_P [OF status(2)]
      by (cases "unmarshalData k [] e ts") auto
    from rest obtain i where ci: "copyInt d = Inr i" and
      rec: "unmarshalService n (sv\<lparr>Status := i\<rparr>) e ts' = Inr (sv', r)"
      by (cases "copyInt d") auto
    have "length r < length ts'"
      using status ud refl ci rec by (rule "4.IH"(2))
    also have "\<dots> < length ts" using ud by (rule unmarshalData_length)
    finally show ?thesis by simp
  next
    case monitor
    from "4.prems" obtain d ts' where
      ud: "unmarshalData k [] e ts = Inr (d, ts')" and
      rec: "unmarshalService n (sv\<lparr>Monitored := d\<rparr>) e ts' = Inr (sv', r)"
      unfolding unmarshalService.simps if_not_P [OF monitor(1)] if_not_P [OF monitor(2)]
        if_P [OF monitor(3)]
      by (cases "unmarshalData k [] e ts") auto
    have "length r < length ts'"
      using monitor ud refl rec by (rule "4.IH"(3))
    also have "\<dots> < length ts" using ud by (rule unmarshalData_length)
    finally show ?thesis by simp
  next
    case other
    from "4.prems" obtain ts' where sk: "Skip k [] e ts = Inr ts'" and
      rec: "unmarshalService n sv e ts' = Inr (sv', r)"
      unfolding unmarshalService.simps if_not_P [OF other(1)] if_not_P [OF other(2)]
        if_not_P [OF other(3)]
      by (cases "Skip k [] e ts") auto
    have "length r < length ts'"
      using other sk rec by (rule "4.IH"(4))
    also have "\<dots> < length ts" using sk by (rule Skip_length)
    finally show ?thesis by simp
  qed
qed (auto split: if_splits)

text \<open>
  The root element into a \<^verbatim>\<open>monitXML\<close>, whatever its name: every \<^verbatim>\<open>service\<close> child is
  appended to the slice.  A child that fails is taken off the slice again.
\<close>

function unmarshalRoot ::
  "string \<Rightarrow> monitService list \<Rightarrow> stop \<Rightarrow> token list \<Rightarrow> monitService list \<times> stop option" where
  "unmarshalRoot n acc e [] = (acc, Some (unexpectedEOF e))"
| "unmarshalRoot n acc e (CharData d # ts) = unmarshalRoot n acc e ts"
| "unmarshalRoot n acc e (EndElement m # ts) =
     (if m \<noteq> n then (acc, Some (Stop SyntaxError)) else (acc, None))"
| "unmarshalRoot n acc e (StartElement k a # ts) =
     (if k = ''service'' then
        (case unmarshalAttrs a \<lparr>Type = 0, Name = [], Status = 0, Monitored = []\<rparr> of
           Inl err \<Rightarrow> (acc, Some err)
         | Inr sv \<Rightarrow>
             (case unmarshalService k sv e ts of
                Inl err \<Rightarrow> (acc, Some err)
              | Inr (sv', ts') \<Rightarrow> unmarshalRoot n (acc @ [sv']) e ts'))
      else
        (case Skip k [] e ts of
           Inl err \<Rightarrow> (acc, Some err)
         | Inr ts' \<Rightarrow> unmarshalRoot n acc e ts'))"
  by pat_completeness auto
termination
  by (relation "measure (\<lambda>(n, acc, e, ts). length ts)")
     (auto dest: Skip_length unmarshalService_length)

fun findStart :: "stop \<Rightarrow> token list \<Rightarrow> stop + (string \<times> token list)" where
  "findStart e [] = Inl e"
| "findStart e (CharData d # ts) = findStart e ts"
| "findStart e (EndElement m # ts) = Inl (Stop SyntaxError)"
| "findStart e (StartElement n a # ts) = Inr (n, ts)"

text \<open>
  \<^verbatim>\<open>Decode\<close> looks for the first start tag and unmarshals that element.  The result
  is the \<^verbatim>\<open>monitXML\<close> as the decoder leaves it with the error it returns, or \<open>None\<close>
  when the document goes beyond what is computed here.
\<close>

definition Decode :: "string \<Rightarrow> (monitXML \<times> go_error option) option" where
  "Decode data =
     (case rawTokens data of
        (ts, e) \<Rightarrow>
          (case findStart e ts of
             Inl Beyond \<Rightarrow> None
           | Inl (Stop err) \<Rightarrow> Some (\<lparr>MonitServices = []\<rparr>, Some err)
           | Inr (n, ts') \<Rightarrow>
               (case unmarshalRoot n [] e ts' of
                  (acc, None) \<Rightarrow> Some (\<lparr>MonitServices = acc\<rparr>, None)
                | (acc, Some Beyond) \<Rightarrow> None
                | (acc, Some (Stop err)) \<Rightarrow> Some (\<lparr>MonitServices = acc\<rparr>, Some err))))"

section \<open>The network and the libraries around the program\<close>

text \<open>
  The HTTP library and the decoders are not part of the repository.  A \<open>world\<close> holds
  what they answer during one collect cycle: each of the calls below is made at most once
  in a cycle, so a world is the list of their answers.  Each function that sends requests
  gives back the requests it handed to \<^verbatim>\<open>client.Do\<close>, so that "no request was sent" can be
  stated.
\<close>

record request =
  Method :: string
  URL :: string
  Body :: string
  BasicAuth :: "(string \<times> string) option"

record Client =
  InsecureSkipVerify :: bool

text \<open>
  The response: its status code, which the program never reads, and what
  \<^verbatim>\<open>ioutil.ReadAll(resp.Body)\<close> gives.
\<close>

record response =
  StatusCode :: int
  ReadAll :: "go_error + string"

record world =
  monit_NewRequest :: "go_error option"
      \<comment> \<open>the error of \<^verbatim>\<open>http.NewRequest("GET", c.monit_scrape_uri, nil)\<close>, if any\<close>
  monit_Do :: "go_error + response"
      \<comment> \<open>what \<^verbatim>\<open>client.Do\<close> gives for the request to monit\<close>
  Decode_beyond :: "(monitXML \<times> go_error option) option"
      \<comment> \<open>what \<^verbatim>\<open>Decoder.Decode\<close> gives for a document beyond the ones computed
          above: the \<^verbatim>\<open>monitXML\<close> and the error; \<open>None\<close> when the world does not say\<close>
  ejabberd_NewRequest :: "go_error option"
      \<comment> \<open>the error of \<^verbatim>\<open>http.NewRequest("POST", ...)\<close>, if any\<close>
  ejabberd_Do :: "go_error + response"
      \<comment> \<open>what \<^verbatim>\<open>client.Do\<close> gives for the request to ejabberd\<close>
  Unmarshal_beyond :: "(EjabberdConnectedUserInfo list \<times> go_error option) option"
      \<comment> \<open>what \<^verbatim>\<open>json.Unmarshal(data, &ejabberd)\<close> gives on the nil slice for a body
          beyond the ones computed below: the slice afterwards and the error; \<open>None\<close>
          when the world does not say\<close>

text \<open>
  How a call ends: it returns to its caller, it panics (a nil pointer dereference), or it
  ends the process (\<^verbatim>\<open>log.Fatal\<close> logs and calls \<^verbatim>\<open>os.Exit(1)\<close>).  \<open>Unmodelled\<close> is
  not an ending of the program: the call met a document for which neither the
  computations here nor the world have the answer of the decoder.
\<close>

datatype 'a outcome = Returned 'a | Panic | Exit | Unmodelled

definition NewRequest ::
  "go_error option \<Rightarrow> string \<Rightarrow> string \<Rightarrow> string \<Rightarrow> go_error + request" where
  "NewRequest answer m u b =
     (case answer of
        Some err \<Rightarrow> Inl err
      | None \<Rightarrow> Inr \<lparr>Method = m, URL = u, Body = b, BasicAuth = None\<rparr>)"

definition SetBasicAuth :: "request \<Rightarrow> string \<Rightarrow> string \<Rightarrow> request" where
  "SetBasicAuth req user password = req\<lparr>BasicAuth := Some (user, password)\<rparr>"

section \<open>Fetching and parsing\<close>

text \<open>
  \<^verbatim>\<open>FetchMonitStatus\<close>.  When \<^verbatim>\<open>http.NewRequest\<close> fails the function logs and goes on
  with the nil request; \<^verbatim>\<open>req.SetBasicAuth\<close> then reads \<^verbatim>\<open>r.Header\<close> of a nil pointer.
  When reading the body fails it calls \<^verbatim>\<open>log.Fatal\<close>, so the \<^verbatim>\<open>return nil, err\<close> after it
  is never reached.
\<close>

definition FetchMonitStatus ::
  "world \<Rightarrow> Config \<Rightarrow> (go_error + string) outcome \<times> request list" where
  "FetchMonitStatus w c =
     (let client = \<lparr>InsecureSkipVerify = ignore_ssl c\<rparr> in
      case NewRequest (monit_NewRequest w) ''GET'' (monit_scrape_uri c) [] of
        Inl err \<Rightarrow> (Panic, [])
      | Inr req0 \<Rightarrow>
          (let req = SetBasicAuth req0 (monit_user c) (monit_password c) in
           case monit_Do w of
             Inl err \<Rightarrow> (Returned (Inl err), [req])
           | Inr resp \<Rightarrow>
               (case ReadAll resp of
                  Inl err \<Rightarrow> (Exit, [req])
                | Inr data \<Rightarrow> (Returned (Inr data), [req]))))"

text \<open>
  \<^verbatim>\<open>ParseMonitStatus\<close> returns the \<^verbatim>\<open>monitXML\<close> as \<^verbatim>\<open>Decode\<close> left it, and its error.
\<close>

definition ParseMonitStatus :: "world \<Rightarrow> string \<Rightarrow> (monitXML \<times> go_error option) option" where
  "ParseMonitStatus w data =
     (case Decode data of
        Some r \<Rightarrow> Some r
      | None \<Rightarrow> Decode_beyond w)"

text \<open>
  \<^verbatim>\<open>json.Unmarshal(data, &ejabberd)\<close> on the nil slice.  The library checks that the
  whole input is one JSON value before it touches the slice.  Four cases are computed
  here: an input of white space only (the empty input too) is a syntax error; so is an
  input whose first byte after the white space cannot begin a JSON value; \<^verbatim>\<open>null\<close>
  leaves the slice nil, and the empty array makes it empty, both without an error.  For
  every other input the answer is the world's.
\<close>

definition isJSONSpace :: "char \<Rightarrow> bool" where
  "isJSONSpace c = (c = CHR '' '' \<or> c = CHR 0x09 \<or> c = CHR 0x0D \<or> c = CHR 0x0A)"

definition beginsValue :: "char \<Rightarrow> bool" where
  "beginsValue c =
     (c = CHR ''{'' \<or> c = CHR ''['' \<or> c = CHR 0x22 \<or> c = CHR ''-'' \<or> isDigit c
      \<or> c = CHR ''t'' \<or> c = CHR ''f'' \<or> c = CHR ''n'')"

definition json_Unmarshal ::
  "string \<Rightarrow> (EjabberdConnectedUserInfo list \<times> go_error option) option" where
  "json_Unmarshal data =
     (let s = dropWhile isJSONSpace data in
      case s of
        [] \<Rightarrow> Some ([], Some SyntaxError)
      | c # r \<Rightarrow>
          if \<not> beginsValue c then Some ([], Some SyntaxError)
          else if take 4 s = ''null'' \<and> dropWhile isJSONSpace (drop 4 s) = [] then
            Some ([], None)
          else if c = CHR ''[''
               \<and> (case dropWhile isJSONSpace r of
                     [] \<Rightarrow> False
                   | d # r' \<Rightarrow> d = CHR '']'' \<and> dropWhile isJSONSpace r' = []) then
            Some ([], None)
          else None)"

definition Unmarshal ::
  "world \<Rightarrow> string \<Rightarrow> (EjabberdConnectedUserInfo list \<times> go_error option) option" where
  "Unmarshal w data =
     (case json_Unmarshal data of
        Some r \<Rightarrow> Some r
      | None \<Rightarrow> Unmarshal_beyond w)"

text \<open>
  \<^verbatim>\<open>FetchAndParseEjabberdStatus\<close> (the second, exported-field version of the file, the one
  \<^verbatim>\<open>scrape\<close> compiles against).  The error of \<^verbatim>\<open>json.Unmarshal\<close> is dropped.
\<close>

definition FetchAndParseEjabberdStatus ::
  "world \<Rightarrow> Config \<Rightarrow> (go_error + EjabberdConnectedUserInfo list) outcome \<times> request list" where
  "FetchAndParseEjabberdStatus w c =
     (case NewRequest (ejabberd_NewRequest w) ''POST''
             (ejabberd_uri c @ ''/api/connected_users_info'') ''{}'' of
        Inl err \<Rightarrow> (Returned (Inl err), [])
      | Inr req \<Rightarrow>
          (let client = \<lparr>InsecureSkipVerify = False\<rparr> in
           case ejabberd_Do w of
             Inl err \<Rightarrow> (Returned (Inl err), [req])
           | Inr resp \<Rightarrow>
               (case ReadAll resp of
                  Inl err \<Rightarrow> (Exit, [req])
                | Inr data \<Rightarrow>
                    (case Unmarshal w data of
                       None \<Rightarrow> (Unmodelled, [req])
                     | Some (ejabberd, err) \<Rightarrow> (Returned (Inr ejabberd), [req])))))"

section \<open>The gauges and the scrape\<close>

text \<open>
  A Prometheus gauge holds a \<^verbatim>\<open>float64\<close>.  Every value the exporter stores is the
  conversion \<^verbatim>\<open>float64(i)\<close> of a Go \<^verbatim>\<open>int\<close> (or the literal 0 or 1): the double nearest
  to \<open>i\<close>, the one with the even mantissa when two are as near.  That double is an integer,
  and \<open>Float64 v\<close> is the double of value \<open>v\<close>.  \<open>excess m\<close> is the number of low bits that
  do not fit the 53 bits of the mantissa.
\<close>

datatype float64 = Float64 int

function excess :: "int \<Rightarrow> nat" where
  "excess m = (if m < 2 ^ 53 then 0 else Suc (excess (m div 2)))"
  by pat_completeness auto
termination
  by (relation "measure nat") auto

declare excess.simps [simp del]

definition roundEven :: "int \<Rightarrow> int" where
  "roundEven m =
     (let k = excess m; q = m div 2 ^ k; r = m mod 2 ^ k in
      if 2 * r < 2 ^ k then q * 2 ^ k
      else if 2 ^ k < 2 * r then (q + 1) * 2 ^ k
      else if even q then q * 2 ^ k
      else (q + 1) * 2 ^ k)"

definition float64 :: "int \<Rightarrow> float64" where
  "float64 i = Float64 (if i < 0 then - roundEven (- i) else roundEven i)"

text \<open>
  A \<^verbatim>\<open>GaugeVec\<close> holds one gauge for every tuple of label values that \<^verbatim>\<open>With\<close> has met
  since the last \<^verbatim>\<open>Reset\<close>: an association list with one entry for a key.
  \<^verbatim>\<open>With(labels).Set(v)\<close> is \<^const>\<open>AList.update\<close>, \<^verbatim>\<open>Reset()\<close> is the empty list.
\<close>

type_synonym 'k GaugeVec = "('k \<times> float64) list"

text \<open>
  The exporter.  Its \<^verbatim>\<open>client\<close> field is never set or read, and its mutex orders
  concurrent calls of \<^verbatim>\<open>Collect\<close>; the model is of one call at a time.  The keys of
  \<open>checkStatus\<close> are the values of the labels \<^verbatim>\<open>check_name\<close>, \<^verbatim>\<open>type\<close> and \<^verbatim>\<open>monitored\<close>,
  the keys of \<open>connectedUsersUptime\<close> the value of \<^verbatim>\<open>jid\<close>.
\<close>

record Exporter =
  config :: Config
  up :: float64
  checkStatus :: "(string \<times> string \<times> string) GaugeVec"
  connectedUsersUptime :: "string GaugeVec"
  connectedUsersCount :: float64

definition NewExporter :: "Config \<Rightarrow> Exporter" where
  "NewExporter c =
     \<lparr>config = c, up = Float64 0, checkStatus = [], connectedUsersUptime = [],
      connectedUsersCount = Float64 0\<rparr>"

definition checkLabels :: "monitService \<Rightarrow> string \<times> string \<times> string" where
  "checkLabels service = (Name service, serviceTypes (Type service), Monitored service)"

text \<open>The two loops of \<^verbatim>\<open>scrape\<close>, over the services and over the connected users.\<close>

definition setChecks ::
  "monitService list \<Rightarrow> (string \<times> string \<times> string) GaugeVec \<Rightarrow> (string \<times> string \<times> string) GaugeVec" where
  "setChecks services g =
     foldl (\<lambda>g service. AList.update (checkLabels service) (float64 (Status service)) g) g services"

definition setUptimes ::
  "EjabberdConnectedUserInfo list \<Rightarrow> string GaugeVec \<Rightarrow> string GaugeVec" where
  "setUptimes jabberData g =
     foldl (\<lambda>g user. AList.update (Jid user) (float64 (Uptime user)) g) g jabberData"

text \<open>
  \<^verbatim>\<open>scrape\<close>: how the call ends (with the error it returns), the exporter as it is when
  the call ends, and the requests sent.  When the call ends the process, the exporter is
  what was in memory then.
\<close>

definition scrape ::
  "world \<Rightarrow> Exporter \<Rightarrow> go_error option outcome \<times> Exporter \<times> request list" where
  "scrape w e =
     (case FetchMonitStatus w (config e) of
        (Panic, sent) \<Rightarrow> (Panic, e, sent)
      | (Exit, sent) \<Rightarrow> (Exit, e, sent)
      | (Unmodelled, sent) \<Rightarrow> (Unmodelled, e, sent)
      | (Returned (Inl err), sent) \<Rightarrow>
          (Returned (Some err), e\<lparr>up := Float64 0, checkStatus := []\<rparr>, sent)
      | (Returned (Inr data), sent) \<Rightarrow>
          (case ParseMonitStatus w data of
             None \<Rightarrow> (Unmodelled, e, sent)
           | Some (parsedData, Some err) \<Rightarrow>
               (Returned (Some err), e\<lparr>up := Float64 0, checkStatus := []\<rparr>, sent)
           | Some (parsedData, None) \<Rightarrow>
               (let e1 = e\<lparr>up := Float64 1\<rparr>;
                    e2 = e1\<lparr>checkStatus := setChecks (MonitServices parsedData) (checkStatus e1)\<rparr>
                in case FetchAndParseEjabberdStatus w (config e2) of
                     (Panic, sent') \<Rightarrow> (Panic, e2, sent @ sent')
                   | (Exit, sent') \<Rightarrow> (Exit, e2, sent @ sent')
                   | (Unmodelled, sent') \<Rightarrow> (Unmodelled, e2, sent @ sent')
                   | (Returned (Inl err), sent') \<Rightarrow> (Returned (Some err), e2, sent @ sent')
                   | (Returned (Inr jabberData), sent') \<Rightarrow>
                       (Returned None,
                        e2\<lparr>connectedUsersUptime :=
                              setUptimes jabberData (connectedUsersUptime e2),
                            connectedUsersCount := float64 (int (length jabberData))\<rparr>,
                        sent @ sent'))))"

text \<open>
  What \<^verbatim>\<open>Collect\<close> sends on its channel: a metric is its name, its labels and its value.
  The four collectors send in the order of the calls; the gauges of one vector, which Go
  sends in no fixed order, are listed in the order in which they were created.
\<close>

datatype metric = Metric string "(string \<times> string) list" float64

definition collected :: "Exporter \<Rightarrow> metric list" where
  "collected e =
     [Metric ''monit_exporter_up'' [] (up e)]
     @ map (\<lambda>((check_name, type, monitored), v).
              Metric ''monit_exporter_service_check''
                [(''check_name'', check_name), (''type'', type), (''monitored'', monitored)] v)
         (checkStatus e)
     @ [Metric ''monit_ejabberd_users'' [] (connectedUsersCount e)]
     @ map (\<lambda>(jid, v). Metric ''monit_ejabberd_connected_users_uptime'' [(''jid'', jid)] v)
         (connectedUsersUptime e)"

text \<open>
  \<^verbatim>\<open>Collect\<close> resets the per-check vector, scrapes, drops the error of the scrape and
  sends the four collectors.  It is \<open>Exporter_Collect\<close> here, \<open>Collect\<close> being the set
  comprehension of HOL.
\<close>

definition Exporter_Collect ::
  "world \<Rightarrow> Exporter \<Rightarrow> metric list outcome \<times> Exporter \<times> request list" where
  "Exporter_Collect w e =
     (case scrape w (e\<lparr>checkStatus := []\<rparr>) of
        (Panic, e', sent) \<Rightarrow> (Panic, e', sent)
      | (Exit, e', sent) \<Rightarrow> (Exit, e', sent)
      | (Unmodelled, e', sent) \<Rightarrow> (Unmodelled, e', sent)
      | (Returned err, e', sent) \<Rightarrow> (Returned (collected e'), e', sent))"

section \<open>Concrete configurations, documents and worlds\<close>

text \<open>The configuration that \<^verbatim>\<open>ParseConfig\<close> builds when no file overrides a default.\<close>

definition default_config :: Config where
  "default_config =
     \<lparr>listen_address = ''localhost:9388'', metrics_path = ''/metrics'', ignore_ssl = False,
      monit_scrape_uri = ''http://localhost:2812/_status?format=xml&level=full'',
      monit_user = [], monit_password = [], ejabberd_uri = ''http://localhost:5280''\<rparr>"

text \<open>
  A configuration file that left the scheme out of the monit URL: \<^verbatim>\<open>url.Parse\<close> refuses
  a URL that starts with a colon ("missing protocol scheme"), so \<^verbatim>\<open>http.NewRequest\<close> fails.
\<close>

definition no_scheme_config :: Config where
  "no_scheme_config = default_config\<lparr>monit_scrape_uri := ''://localhost:2812/_status''\<rparr>"

text \<open>The requests that the two fetch functions build from a configuration.\<close>

definition monit_request :: "Config \<Rightarrow> request" where
  "monit_request c =
     \<lparr>Method = ''GET'', URL = monit_scrape_uri c, Body = [],
      BasicAuth = Some (monit_user c, monit_password c)\<rparr>"

definition ejabberd_request :: "Config \<Rightarrow> request" where
  "ejabberd_request c =
     \<lparr>Method = ''POST'', URL = ejabberd_uri c @ ''/api/connected_users_info'', Body = ''{}'',
      BasicAuth = None\<rparr>"

text \<open>The minimal document of the specification, and two more documents.\<close>

definition minimal_doc :: string where
  \<open>minimal_doc = ''<services><service type="2"><name>check1</name><status>0</status><monitor>1</monitor></service></services>''\<close>

definition twin_doc :: string where
  \<open>twin_doc = ''<monit><service type="5"><name>a</name><status>0</status><monitor>1</monitor></service><service type="5"><name>a</name><status>512</status><monitor>1</monitor></service></monit>''\<close>

definition unmapped_doc :: string where
  \<open>unmapped_doc = ''<monit><service type="9"><name>eth0</name><status>0</status><monitor>1</monitor></service></monit>''\<close>

text \<open>
  A body of ejabberd with one session, and what \<^verbatim>\<open>json.Unmarshal\<close> makes of it: the keys
  match the fields whatever their case, the fields without a key keep their zero value.
\<close>

definition one_session :: string where
  \<open>one_session = ''[{"jid":"a@b","uptime":120}]''\<close>

definition one_session_decoded :: "EjabberdConnectedUserInfo list" where
  "one_session_decoded =
     [\<lparr>Jid = ''a@b'', Connection = [], Ip = [], Port = 0, Priority = 0, Node = [],
       Uptime = 120\<rparr>]"

text \<open>
  A response with the body \<open>data\<close>, and one whose body breaks off while it is read.
\<close>

definition ok_body :: "string \<Rightarrow> go_error + response" where
  "ok_body data = Inr \<lparr>StatusCode = 200, ReadAll = Inr data\<rparr>"

definition broken_body :: "go_error + response" where
  "broken_body = Inr \<lparr>StatusCode = 200, ReadAll = Inl ReadError\<rparr>"

text \<open>
  The world in which both requests can be built, monit answers \<open>monit\<close>, ejabberd answers
  \<open>ejabberd\<close>, and \<open>json\<close> is what \<^verbatim>\<open>json.Unmarshal\<close> gives on the body of ejabberd where
  that is not computed above.  It has no answer for a document of monit beyond the ones
  computed above: the worlds below serve none.
\<close>

definition answering ::
  "go_error + response \<Rightarrow> go_error + response
   \<Rightarrow> (EjabberdConnectedUserInfo list \<times> go_error option) option \<Rightarrow> world" where
  "answering monit ejabberd json =
     \<lparr>monit_NewRequest = None, monit_Do = monit, Decode_beyond = None,
      ejabberd_NewRequest = None, ejabberd_Do = ejabberd, Unmarshal_beyond = json\<rparr>"

text \<open>An exporter that has been through a cycle: one check and one session are published.\<close>

definition busy :: Exporter where
  "busy =
     \<lparr>config = default_config, up = Float64 1,
      checkStatus = [((''old'', ''file'', ''1''), Float64 0)],
      connectedUsersUptime = [(''a@b'', Float64 120)],
      connectedUsersCount = Float64 1\<rparr>"

section \<open>Properties of the fetch functions\<close>

lemma FetchMonitStatus_cases:
  "FetchMonitStatus w c =
     (case monit_NewRequest w of
        Some err \<Rightarrow> (Panic, [])
      | None \<Rightarrow>
          (case monit_Do w of
             Inl err \<Rightarrow> (Returned (Inl err), [monit_request c])
           | Inr resp \<Rightarrow>
               (case ReadAll resp of
                  Inl err \<Rightarrow> (Exit, [monit_request c])
                | Inr data \<Rightarrow> (Returned (Inr data), [monit_request c]))))"
  by (simp add: FetchMonitStatus_def NewRequest_def SetBasicAuth_def monit_request_def Let_def
      split: option.splits sum.splits)

lemma FetchAndParseEjabberdStatus_cases:
  "FetchAndParseEjabberdStatus w c =
     (case ejabberd_NewRequest w of
        Some err \<Rightarrow> (Returned (Inl err), [])
      | None \<Rightarrow>
          (case ejabberd_Do w of
             Inl err \<Rightarrow> (Returned (Inl err), [ejabberd_request c])
           | Inr resp \<Rightarrow>
               (case ReadAll resp of
                  Inl err \<Rightarrow> (Exit, [ejabberd_request c])
                | Inr data \<Rightarrow>
                    (case Unmarshal w data of
                       None \<Rightarrow> (Unmodelled, [ejabberd_request c])
                     | Some r \<Rightarrow> (Returned (Inr (fst r)), [ejabberd_request c])))))"
  by (simp add: FetchAndParseEjabberdStatus_def NewRequest_def ejabberd_request_def Let_def
      split: option.splits sum.splits prod.splits)

lemma FetchMonitStatus_sent:
  "snd (FetchMonitStatus w c) = [] \<or> snd (FetchMonitStatus w c) = [monit_request c]"
  unfolding FetchMonitStatus_cases by (simp split: option.splits sum.splits)

lemma FetchMonitStatus_not_Unmodelled:
  "fst (FetchMonitStatus w c) \<noteq> Unmodelled"
  unfolding FetchMonitStatus_cases by (simp split: option.splits sum.splits)

lemma FetchAndParseEjabberdStatus_no_panic:
  "fst (FetchAndParseEjabberdStatus w c) \<noteq> Panic"
  unfolding FetchAndParseEjabberdStatus_cases by (simp split: option.splits sum.splits)

lemma FetchMonitStatus_answering:
  "FetchMonitStatus (answering m j u) c =
     (case m of
        Inl err \<Rightarrow> (Returned (Inl err), [monit_request c])
      | Inr resp \<Rightarrow>
          (case ReadAll resp of
             Inl err \<Rightarrow> (Exit, [monit_request c])
           | Inr data \<Rightarrow> (Returned (Inr data), [monit_request c])))"
  by (simp add: FetchMonitStatus_cases answering_def)

lemma FetchAndParseEjabberdStatus_answering:
  "FetchAndParseEjabberdStatus (answering m j u) c =
     (case j of
        Inl err \<Rightarrow> (Returned (Inl err), [ejabberd_request c])
      | Inr resp \<Rightarrow>
          (case ReadAll resp of
             Inl err \<Rightarrow> (Exit, [ejabberd_request c])
           | Inr data \<Rightarrow>
               (case json_Unmarshal data of
                  Some r \<Rightarrow> (Returned (Inr (fst r)), [ejabberd_request c])
                | None \<Rightarrow>
                    (case u of
                       None \<Rightarrow> (Unmodelled, [ejabberd_request c])
                     | Some r \<Rightarrow> (Returned (Inr (fst r)), [ejabberd_request c])))))"
  by (simp add: FetchAndParseEjabberdStatus_cases answering_def Unmarshal_def
      split: sum.splits option.splits)

section \<open>Properties of the scrape\<close>

lemma scrape_fetch_error:
  assumes "FetchMonitStatus w (config e) = (Returned (Inl err), sent)"
  shows "scrape w e = (Returned (Some err), e\<lparr>up := Float64 0, checkStatus := []\<rparr>, sent)"
  using assms by (simp add: scrape_def)

lemma scrape_parse_error:
  assumes "FetchMonitStatus w (config e) = (Returned (Inr data), sent)"
    and "ParseMonitStatus w data = Some (parsed, Some err)"
  shows "scrape w e = (Returned (Some err), e\<lparr>up := Float64 0, checkStatus := []\<rparr>, sent)"
  using assms by (simp add: scrape_def)

lemma scrape_parsed:
  assumes "FetchMonitStatus w (config e) = (Returned (Inr data), sent)"
    and "ParseMonitStatus w data = Some (parsed, None)"
  shows "scrape w e =
     (case FetchAndParseEjabberdStatus w (config e) of
        (Panic, sent') \<Rightarrow>
          (Panic,
           e\<lparr>up := Float64 1, checkStatus := setChecks (MonitServices parsed) (checkStatus e)\<rparr>,
           sent @ sent')
      | (Exit, sent') \<Rightarrow>
          (Exit,
           e\<lparr>up := Float64 1, checkStatus := setChecks (MonitServices parsed) (checkStatus e)\<rparr>,
           sent @ sent')
      | (Unmodelled, sent') \<Rightarrow>
          (Unmodelled,
           e\<lparr>up := Float64 1, checkStatus := setChecks (MonitServices parsed) (checkStatus e)\<rparr>,
           sent @ sent')
      | (Returned (Inl err), sent') \<Rightarrow>
          (Returned (Some err),
           e\<lparr>up := Float64 1, checkStatus := setChecks (MonitServices parsed) (checkStatus e)\<rparr>,
           sent @ sent')
      | (Returned (Inr jabberData), sent') \<Rightarrow>
          (Returned None,
           e\<lparr>up := Float64 1, checkStatus := setChecks (MonitServices parsed) (checkStatus e),
             connectedUsersUptime := setUptimes jabberData (connectedUsersUptime e),
             connectedUsersCount := float64 (int (length jabberData))\<rparr>,
           sent @ sent'))"
  using assms by (simp add: scrape_def Let_def split: prod.splits outcome.splits sum.splits)

text \<open>
  Where the monitor fetch returns an error, or returns data on which
  \<^verbatim>\<open>ParseMonitStatus\<close> returns an error, \<^verbatim>\<open>scrape\<close> returns that error and leaves the
  exporter with \<open>up\<close> set to 0 and \<open>checkStatus\<close> empty; the session gauges are as they
  were, and the requests of the scrape are those of the monitor fetch.
\<close>

lemma scrape_returned_monitor_error:
  assumes "fst (FetchMonitStatus w (config e)) = Returned (Inl err)
           \<or> (\<exists>data parsed. fst (FetchMonitStatus w (config e)) = Returned (Inr data)
                \<and> ParseMonitStatus w data = Some (parsed, Some err))"
  shows "scrape w e =
           (Returned (Some err), e\<lparr>up := Float64 0, checkStatus := []\<rparr>,
            snd (FetchMonitStatus w (config e)))"
proof -
  obtain a sent where f: "FetchMonitStatus w (config e) = (a, sent)"
    by (cases "FetchMonitStatus w (config e)")
  show ?thesis
  proof (cases "a = Returned (Inl err)")
    case True
    with f show ?thesis by (simp add: scrape_fetch_error)
  next
    case False
    with assms f obtain data parsed where a: "a = Returned (Inr data)"
      and p: "ParseMonitStatus w data = Some (parsed, Some err)"
      by auto
    with f show ?thesis by (simp add: scrape_parse_error)
  qed
qed


lemma scrape_panics:
  assumes "monit_NewRequest w = Some err"
  shows "scrape w e = (Panic, e, [])"
  using assms by (simp add: scrape_def FetchMonitStatus_cases)

lemma scrape_exits_in_monitor_fetch:
  assumes "monit_NewRequest w = None" and "monit_Do w = Inr resp" and "ReadAll resp = Inl err"
  shows "scrape w e = (Exit, e, [monit_request (config e)])"
  using assms by (simp add: scrape_def FetchMonitStatus_cases)

lemma Collect_scrape:
  "fst (Exporter_Collect w e) =
     (case fst (scrape w (e\<lparr>checkStatus := []\<rparr>)) of
        Returned err \<Rightarrow> Returned (collected (fst (snd (scrape w (e\<lparr>checkStatus := []\<rparr>)))))
      | Panic \<Rightarrow> Panic
      | Exit \<Rightarrow> Exit
      | Unmodelled \<Rightarrow> Unmodelled)"
  "snd (Exporter_Collect w e) = snd (scrape w (e\<lparr>checkStatus := []\<rparr>))"
proof -
  obtain a e' sent where s: "scrape w (e\<lparr>checkStatus := []\<rparr>) = (a, e', sent)"
    by (cases "scrape w (e\<lparr>checkStatus := []\<rparr>)")
  show "fst (Exporter_Collect w e) =
     (case fst (scrape w (e\<lparr>checkStatus := []\<rparr>)) of
        Returned err \<Rightarrow> Returned (collected (fst (snd (scrape w (e\<lparr>checkStatus := []\<rparr>)))))
      | Panic \<Rightarrow> Panic
      | Exit \<Rightarrow> Exit
      | Unmodelled \<Rightarrow> Unmodelled)"
    by (cases a) (simp_all add: Exporter_Collect_def s)
  show "snd (Exporter_Collect w e) = snd (scrape w (e\<lparr>checkStatus := []\<rparr>))"
    by (cases a) (simp_all add: Exporter_Collect_def s)
qed

lemma fst_Collect_Exit:
  "fst (scrape w (e\<lparr>checkStatus := []\<rparr>)) = Exit \<Longrightarrow> fst (Exporter_Collect w e) = Exit"
  by (simp add: Collect_scrape(1))

section \<open>Properties of the gauges\<close>

lemma excess_small: "m < 2 ^ 53 \<Longrightarrow> excess m = 0"
  by (simp add: excess.simps)

lemma roundEven_small: "m < 2 ^ 53 \<Longrightarrow> roundEven m = m"
  by (simp add: roundEven_def excess_small)

lemma float64_exact: "\<bar>i\<bar> < 2 ^ 53 \<Longrightarrow> float64 i = Float64 i"
  by (auto simp: float64_def roundEven_small)

lemma foldl_update_keys:
  "fst ` set (foldl (\<lambda>g x. AList.update (f x) (h x) g) g xs) = f ` set xs \<union> fst ` set g"
  by (induction xs arbitrary: g) (auto simp: dom_update)

lemma foldl_update_distinct:
  "distinct (map fst g) \<Longrightarrow> distinct (map fst (foldl (\<lambda>g x. AList.update (f x) (h x) g) g xs))"
  by (induction xs arbitrary: g) (simp_all add: distinct_update)

lemma foldl_update_map_of:
  "map_of (foldl (\<lambda>g x. AList.update (f x) (h x) g) g xs) k =
     (if filter (\<lambda>x. f x = k) xs = [] then map_of g k
      else Some (h (last (filter (\<lambda>x. f x = k) xs))))"
proof (induction xs rule: rev_induct)
  case Nil
  show ?case by simp
next
  case (snoc x xs)
  show ?case
  proof (cases "f x = k")
    case True
    then show ?thesis
      by (simp add: update_conv')
  next
    case False
    with snoc show ?thesis
      by (simp add: update_conv')
  qed
qed

lemma filter_distinct_key:
  "distinct (map f xs) \<Longrightarrow> x \<in> set xs \<Longrightarrow> filter (\<lambda>y. f y = f x) xs = [x]"
proof (induction xs)
  case Nil
  then show ?case by simp
next
  case (Cons a xs)
  show ?case
  proof (cases "a = x")
    case True
    with Cons.prems have "\<forall>y \<in> set xs. f y \<noteq> f x"
      by (auto simp: image_iff)
    then have "filter (\<lambda>y. f y = f x) xs = []"
      by (simp add: filter_empty_conv)
    with True show ?thesis by simp
  next
    case False
    with Cons.prems have x: "x \<in> set xs" and "f a \<noteq> f x"
      by (auto simp: image_iff)
    with Cons show ?thesis by simp
  qed
qed

lemma distinct_keys_length:
  assumes "distinct (map fst g)"
  shows "length g = card (fst ` set g)"
proof -
  have "card (set (map fst g)) = length (map fst g)"
    using assms by (rule distinct_card)
  then show ?thesis by simp
qed

lemma setChecks_keys:
  "fst ` set (setChecks services g) = checkLabels ` set services \<union> fst ` set g"
  unfolding setChecks_def by (rule foldl_update_keys)

lemma setChecks_distinct:
  "distinct (map fst g) \<Longrightarrow> distinct (map fst (setChecks services g))"
  unfolding setChecks_def by (rule foldl_update_distinct)

lemma setChecks_map_of:
  "map_of (setChecks services g) k =
     (if filter (\<lambda>s. checkLabels s = k) services = [] then map_of g k
      else Some (float64 (Status (last (filter (\<lambda>s. checkLabels s = k) services)))))"
  unfolding setChecks_def by (rule foldl_update_map_of)

lemma setUptimes_keys:
  "fst ` set (setUptimes jabberData g) = Jid ` set jabberData \<union> fst ` set g"
  unfolding setUptimes_def by (rule foldl_update_keys)

lemma setUptimes_map_of:
  "map_of (setUptimes jabberData g) k =
     (if filter (\<lambda>u. Jid u = k) jabberData = [] then map_of g k
      else Some (float64 (Uptime (last (filter (\<lambda>u. Jid u = k) jabberData)))))"
  unfolding setUptimes_def by (rule foldl_update_map_of)

section \<open>The documents decoded\<close>

lemma Decode_minimal_doc:
  "Decode minimal_doc =
     Some (\<lparr>MonitServices = [\<lparr>Type = 2, Name = ''check1'', Status = 0, Monitored = ''1''\<rparr>]\<rparr>, None)"
  by code_simp

lemma Decode_twin_doc:
  "Decode twin_doc =
     Some (\<lparr>MonitServices = [\<lparr>Type = 5, Name = ''a'', Status = 0, Monitored = ''1''\<rparr>,
                        \<lparr>Type = 5, Name = ''a'', Status = 512, Monitored = ''1''\<rparr>]\<rparr>, None)"
  by code_simp

lemma Decode_unmapped_doc:
  "Decode unmapped_doc =
     Some (\<lparr>MonitServices = [\<lparr>Type = 9, Name = ''eth0'', Status = 0, Monitored = ''1''\<rparr>]\<rparr>, None)"
  by code_simp

lemma ParseMonitStatus_Decode:
  "Decode data = Some r \<Longrightarrow> ParseMonitStatus w data = Some r"
  by (simp add: ParseMonitStatus_def)

lemma float64_small_values:
  "float64 0 = Float64 0" "float64 1 = Float64 1" "float64 120 = Float64 120"
  "float64 512 = Float64 512"
  by (simp_all add: float64_exact)

section \<open>The state after a scrape whose monitor part succeeds\<close>

lemma scrape_after_parse:
  assumes f: "fst (FetchMonitStatus w (config e)) = Returned (Inr data)"
    and p: "ParseMonitStatus w data = Some (parsed, None)"
  shows "fst (scrape w e) =
           (case fst (FetchAndParseEjabberdStatus w (config e)) of
              Returned (Inl err) \<Rightarrow> Returned (Some err)
            | Returned (Inr jabberData) \<Rightarrow> Returned None
            | Panic \<Rightarrow> Panic
            | Exit \<Rightarrow> Exit
            | Unmodelled \<Rightarrow> Unmodelled)"
    and "fst (snd (scrape w e)) =
           (case fst (FetchAndParseEjabberdStatus w (config e)) of
              Returned (Inr jabberData) \<Rightarrow>
                e\<lparr>up := Float64 1,
                  checkStatus := setChecks (MonitServices parsed) (checkStatus e),
                  connectedUsersUptime := setUptimes jabberData (connectedUsersUptime e),
                  connectedUsersCount := float64 (int (length jabberData))\<rparr>
            | _ \<Rightarrow>
                e\<lparr>up := Float64 1,
                  checkStatus := setChecks (MonitServices parsed) (checkStatus e)\<rparr>)"
proof -
  obtain sent where f0: "FetchMonitStatus w (config e) = (Returned (Inr data), sent)"
    using f by (cases "FetchMonitStatus w (config e)") simp
  obtain a sent' where j: "FetchAndParseEjabberdStatus w (config e) = (a, sent')"
    by (cases "FetchAndParseEjabberdStatus w (config e)")
  note s = scrape_parsed [OF f0 p, unfolded j]
  show "fst (scrape w e) =
           (case fst (FetchAndParseEjabberdStatus w (config e)) of
              Returned (Inl err) \<Rightarrow> Returned (Some err)
            | Returned (Inr jabberData) \<Rightarrow> Returned None
            | Panic \<Rightarrow> Panic
            | Exit \<Rightarrow> Exit
            | Unmodelled \<Rightarrow> Unmodelled)"
    unfolding s j by (simp split: outcome.splits sum.splits)
  show "fst (snd (scrape w e)) =
           (case fst (FetchAndParseEjabberdStatus w (config e)) of
              Returned (Inr jabberData) \<Rightarrow>
                e\<lparr>up := Float64 1,
                  checkStatus := setChecks (MonitServices parsed) (checkStatus e),
                  connectedUsersUptime := setUptimes jabberData (connectedUsersUptime e),
                  connectedUsersCount := float64 (int (length jabberData))\<rparr>
            | _ \<Rightarrow>
                e\<lparr>up := Float64 1,
                  checkStatus := setChecks (MonitServices parsed) (checkStatus e)\<rparr>)"
    unfolding s j by (simp split: outcome.splits sum.splits)
qed


lemma Collect_after_parse:
  assumes f: "fst (FetchMonitStatus w (config e)) = Returned (Inr data)"
    and p: "ParseMonitStatus w data = Some (parsed, None)"
  shows "fst (Exporter_Collect w e) =
           (case fst (FetchAndParseEjabberdStatus w (config e)) of
              Returned r \<Rightarrow> Returned (collected (fst (snd (Exporter_Collect w e))))
            | Panic \<Rightarrow> Panic
            | Exit \<Rightarrow> Exit
            | Unmodelled \<Rightarrow> Unmodelled)"
    and "fst (snd (Exporter_Collect w e)) =
           (case fst (FetchAndParseEjabberdStatus w (config e)) of
              Returned (Inr jabberData) \<Rightarrow>
                e\<lparr>up := Float64 1,
                  checkStatus := setChecks (MonitServices parsed) [],
                  connectedUsersUptime := setUptimes jabberData (connectedUsersUptime e),
                  connectedUsersCount := float64 (int (length jabberData))\<rparr>
            | _ \<Rightarrow>
                e\<lparr>up := Float64 1, checkStatus := setChecks (MonitServices parsed) []\<rparr>)"
proof -
  let ?e = "e\<lparr>checkStatus := []\<rparr>"
  have f': "fst (FetchMonitStatus w (config ?e)) = Returned (Inr data)"
    using f by simp
  note s = scrape_after_parse [OF f' p]
  show "fst (Exporter_Collect w e) =
           (case fst (FetchAndParseEjabberdStatus w (config e)) of
              Returned r \<Rightarrow> Returned (collected (fst (snd (Exporter_Collect w e))))
            | Panic \<Rightarrow> Panic
            | Exit \<Rightarrow> Exit
            | Unmodelled \<Rightarrow> Unmodelled)"
    unfolding Collect_scrape s(1) by (simp split: outcome.splits sum.splits)
  show "fst (snd (Exporter_Collect w e)) =
           (case fst (FetchAndParseEjabberdStatus w (config e)) of
              Returned (Inr jabberData) \<Rightarrow>
                e\<lparr>up := Float64 1,
                  checkStatus := setChecks (MonitServices parsed) [],
                  connectedUsersUptime := setUptimes jabberData (connectedUsersUptime e),
                  connectedUsersCount := float64 (int (length jabberData))\<rparr>
            | _ \<Rightarrow>
                e\<lparr>up := Float64 1, checkStatus := setChecks (MonitServices parsed) []\<rparr>)"
    unfolding Collect_scrape s(2) by (simp split: outcome.splits sum.splits)
qed

lemma Collect_checks_after_parse:
  assumes "fst (FetchMonitStatus w (config e)) = Returned (Inr data)"
    and "ParseMonitStatus w data = Some (parsed, None)"
  shows "up (fst (snd (Exporter_Collect w e))) = Float64 1"
    and "checkStatus (fst (snd (Exporter_Collect w e))) = setChecks (MonitServices parsed) []"
  unfolding Collect_after_parse(2) [OF assms]
  by (simp_all split: outcome.splits sum.splits)

section \<open>The worlds of the examples\<close>

lemma FetchMonitStatus_ok_body:
  "fst (FetchMonitStatus (answering (ok_body data) j u) c) = Returned (Inr data)"
  by (simp add: FetchMonitStatus_answering ok_body_def)

lemma json_Unmarshal_examples:
  "json_Unmarshal ''[]'' = Some ([], None)"
  "json_Unmarshal ''null'' = Some ([], None)"
  "json_Unmarshal [] = Some ([], Some SyntaxError)"
  "json_Unmarshal ''<html>'' = Some ([], Some SyntaxError)"
  "json_Unmarshal one_session = None"
  by (simp_all add: json_Unmarshal_def isJSONSpace_def beginsValue_def isDigit_def
      one_session_def)

lemma FetchAndParseEjabberdStatus_ok_body:
  "json_Unmarshal data = Some r \<Longrightarrow>
     fst (FetchAndParseEjabberdStatus (answering m (ok_body data) u) c) = Returned (Inr (fst r))"
  "json_Unmarshal data = None \<Longrightarrow>
     fst (FetchAndParseEjabberdStatus (answering m (ok_body data) (Some r)) c)
       = Returned (Inr (fst r))"
  by (simp_all add: FetchAndParseEjabberdStatus_answering ok_body_def)


lemma FetchAndParseEjabberdStatus_broken_body:
  "fst (FetchAndParseEjabberdStatus (answering m broken_body u) c) = Exit"
  by (simp add: FetchAndParseEjabberdStatus_answering broken_body_def)

lemma config_simps:
  "config busy = default_config" "config (NewExporter c) = c"
  by (simp_all add: busy_def NewExporter_def)

lemma setChecks_examples:
  "setChecks [\<lparr>Type = 2, Name = ''check1'', Status = 0, Monitored = ''1''\<rparr>] g
     = AList.update (''check1'', ''file'', ''1'') (Float64 0) g"
  "setChecks [\<lparr>Type = 5, Name = ''a'', Status = 0, Monitored = ''1''\<rparr>,
              \<lparr>Type = 5, Name = ''a'', Status = 512, Monitored = ''1''\<rparr>] []
     = [((''a'', ''system'', ''1''), Float64 512)]"
  "setChecks [\<lparr>Type = 9, Name = ''eth0'', Status = 0, Monitored = ''1''\<rparr>] []
     = [((''eth0'', [], ''1''), Float64 0)]"
  by (simp_all add: setChecks_def checkLabels_def serviceTypes_def float64_small_values)

lemma setUptimes_examples:
  "setUptimes one_session_decoded g = AList.update ''a@b'' (Float64 120) g"
  "setUptimes [] g = g"
  by (simp_all add: setUptimes_def one_session_decoded_def float64_small_values)

section \<open>The claims\<close>

text \<open>
  C1.  The claim is that \<^verbatim>\<open>scrape\<close> sets \<open>up\<close> to 0, empties \<open>checkStatus\<close> and returns
  whenever the monitor fetch fails.  It does so where the fetch returns its error
  (\<open>scrape_returned_monitor_error\<close>).  Two failures of the fetch never return.  With a
  monit URL that has no scheme the request cannot be built and \<^verbatim>\<open>scrape\<close> panics; when
  the body of the response breaks off \<^verbatim>\<open>scrape\<close> ends the process.  In both the exporter
  still has \<open>up\<close> at 1 and its old check.
\<close>

theorem scrape_panics_or_exits_on_monitor_failure:
  "scrape
     ((answering (Inl TransportError) (Inl TransportError) None)
        \<lparr>monit_NewRequest := Some URLError\<rparr>)
     (busy\<lparr>config := no_scheme_config\<rparr>)
     = (Panic,
        \<lparr>config = no_scheme_config, up = Float64 1,
         checkStatus = [((''old'', ''file'', ''1''), Float64 0)],
         connectedUsersUptime = [(''a@b'', Float64 120)], connectedUsersCount = Float64 1\<rparr>,
        [])
   \<and> scrape (answering broken_body (ok_body one_session) (Some (one_session_decoded, None))) busy
     = (Exit,
        \<lparr>config = default_config, up = Float64 1,
         checkStatus = [((''old'', ''file'', ''1''), Float64 0)],
         connectedUsersUptime = [(''a@b'', Float64 120)], connectedUsersCount = Float64 1\<rparr>,
        [monit_request default_config])"
proof -
  have "scrape
     ((answering (Inl TransportError) (Inl TransportError) None)
        \<lparr>monit_NewRequest := Some URLError\<rparr>)
     (busy\<lparr>config := no_scheme_config\<rparr>)
     = (Panic, busy\<lparr>config := no_scheme_config\<rparr>, [])"
    by (rule scrape_panics) simp
  moreover have "scrape (answering broken_body (ok_body one_session) (Some (one_session_decoded, None))) busy
     = (Exit, busy, [monit_request (config busy)])"
    by (rule scrape_exits_in_monitor_fetch
          [where resp = "\<lparr>StatusCode = 200, ReadAll = Inl ReadError\<rparr>" and err = ReadError])
      (simp_all add: answering_def broken_body_def)
  ultimately show ?thesis
    by (simp add: busy_def)
qed

text \<open>
  C7.  When \<^verbatim>\<open>http.NewRequest\<close> fails for the monit URL, \<^verbatim>\<open>FetchMonitStatus\<close> returns no
  error: it panics, before any request is sent, and so do \<^verbatim>\<open>scrape\<close> and \<^verbatim>\<open>Collect\<close>.
  The claim is that it returns the error to its caller.
\<close>

theorem FetchMonitStatus_panics_when_request_fails:
  assumes "monit_NewRequest w = Some err"
  shows "FetchMonitStatus w c = (Panic, [])
         \<and> scrape w e = (Panic, e, [])
         \<and> Exporter_Collect w e = (Panic, e\<lparr>checkStatus := []\<rparr>, [])"
  using assms by (simp add: FetchMonitStatus_cases scrape_def Exporter_Collect_def)

theorem FetchMonitStatus_panics_when_request_fails_witness:
  "monit_NewRequest
     ((answering (Inl TransportError) (Inl TransportError) None)
        \<lparr>monit_NewRequest := Some URLError\<rparr>) = Some URLError
   \<and> FetchMonitStatus
       ((answering (Inl TransportError) (Inl TransportError) None)
          \<lparr>monit_NewRequest := Some URLError\<rparr>) no_scheme_config = (Panic, [])"
  using FetchMonitStatus_panics_when_request_fails
    [of "(answering (Inl TransportError) (Inl TransportError) None)
           \<lparr>monit_NewRequest := Some URLError\<rparr>" URLError no_scheme_config]
  by simp

text \<open>
  The sibling \<^verbatim>\<open>FetchAndParseEjabberdStatus\<close> has the \<^verbatim>\<open>return\<close> that
  \<^verbatim>\<open>FetchMonitStatus\<close> lacks: it returns the error of \<^verbatim>\<open>http.NewRequest\<close>.
\<close>

lemma FetchAndParseEjabberdStatus_returns_request_error:
  assumes "ejabberd_NewRequest w = Some err"
  shows "FetchAndParseEjabberdStatus w c = (Returned (Inl err), [])"
  using assms by (simp add: FetchAndParseEjabberdStatus_cases)

text \<open>
  C4.  An error while the body of a response is read ends the process, in the monitor
  fetch and in the messaging fetch alike: \<^verbatim>\<open>scrape\<close> and \<^verbatim>\<open>Collect\<close> do not return.  The
  claim is that such an error makes the scrape return an error.
\<close>

theorem body_read_error_ends_the_process:
  assumes "monit_NewRequest w = None
             \<and> (\<exists>resp err. monit_Do w = Inr resp \<and> ReadAll resp = Inl err)
           \<or> (\<exists>data parsed. fst (FetchMonitStatus w (config e)) = Returned (Inr data)
                \<and> ParseMonitStatus w data = Some (parsed, None))
             \<and> ejabberd_NewRequest w = None
             \<and> (\<exists>resp err. ejabberd_Do w = Inr resp \<and> ReadAll resp = Inl err)"
  shows "fst (scrape w e) = Exit \<and> fst (Exporter_Collect w e) = Exit"
proof -
  have "fst (scrape w e') = Exit" if c: "config e' = config e" for e'
    using assms
  proof (elim disjE conjE exE)
    fix resp err
    assume "monit_NewRequest w = None" "monit_Do w = Inr resp" "ReadAll resp = Inl err"
    then show ?thesis by (simp add: scrape_exits_in_monitor_fetch)
  next
    fix data parsed resp err
    assume f: "fst (FetchMonitStatus w (config e)) = Returned (Inr data)"
      and p: "ParseMonitStatus w data = Some (parsed, None)"
      and j: "ejabberd_NewRequest w = None" "ejabberd_Do w = Inr resp" "ReadAll resp = Inl err"
    obtain sent where "FetchMonitStatus w (config e') = (Returned (Inr data), sent)"
      using f c by (cases "FetchMonitStatus w (config e)") simp
    then show ?thesis
      using p j by (simp add: scrape_parsed FetchAndParseEjabberdStatus_cases)
  qed
  from this [of e] this [of "e\<lparr>checkStatus := []\<rparr>"] show ?thesis
    by (simp add: fst_Collect_Exit)
qed

theorem body_read_error_ends_the_process_witness:
  "monit_NewRequest (answering broken_body (ok_body one_session) (Some (one_session_decoded, None))) = None
   \<and> monit_Do (answering broken_body (ok_body one_session) (Some (one_session_decoded, None)))
       = Inr \<lparr>StatusCode = 200, ReadAll = Inl ReadError\<rparr>
   \<and> fst (scrape (answering broken_body (ok_body one_session) (Some (one_session_decoded, None))) busy)
       = Exit
   \<and> fst (Exporter_Collect
            (answering broken_body (ok_body one_session) (Some (one_session_decoded, None))) busy)
       = Exit
   \<and> fst (FetchMonitStatus (answering (ok_body minimal_doc) broken_body None) (config busy))
       = Returned (Inr minimal_doc)
   \<and> ejabberd_Do (answering (ok_body minimal_doc) broken_body None)
       = Inr \<lparr>StatusCode = 200, ReadAll = Inl ReadError\<rparr>
   \<and> fst (scrape (answering (ok_body minimal_doc) broken_body None) busy) = Exit
   \<and> fst (Exporter_Collect (answering (ok_body minimal_doc) broken_body None) busy) = Exit"
proof -
  let ?w = "answering (ok_body minimal_doc) broken_body None"
  have f: "fst (FetchMonitStatus ?w (config busy)) = Returned (Inr minimal_doc)"
    by (rule FetchMonitStatus_ok_body)
  have p: "ParseMonitStatus ?w minimal_doc
      = Some (\<lparr>MonitServices = [\<lparr>Type = 2, Name = ''check1'', Status = 0, Monitored = ''1''\<rparr>]\<rparr>,
              None)"
    by (rule ParseMonitStatus_Decode [OF Decode_minimal_doc])
  have "fst (scrape ?w busy) = Exit \<and> fst (Exporter_Collect ?w busy) = Exit"
    using body_read_error_ends_the_process [of ?w busy] f p
    by (simp add: answering_def broken_body_def)
  then show ?thesis
    using body_read_error_ends_the_process
      [of "answering broken_body (ok_body one_session) (Some (one_session_decoded, None))" busy] f
    by (simp add: answering_def broken_body_def)
qed

text \<open>
  C8.  \<^verbatim>\<open>ParseMonitStatus\<close> on the minimal document of the specification returns one
  service, of type 2, name \<^verbatim>\<open>check1\<close>, status 0 and monitored \<^verbatim>\<open>1\<close>, and no error;
  \<^verbatim>\<open>serviceTypes\<close> maps 2 to \<^verbatim>\<open>file\<close>.
\<close>

theorem ParseMonitStatus_minimal_doc:
  "ParseMonitStatus w minimal_doc =
     Some (\<lparr>MonitServices = [\<lparr>Type = 2, Name = ''check1'', Status = 0, Monitored = ''1''\<rparr>]\<rparr>,
           None)
   \<and> serviceTypes 2 = ''file''
   \<and> checkLabels \<lparr>Type = 2, Name = ''check1'', Status = 0, Monitored = ''1''\<rparr>
       = (''check1'', ''file'', ''1'')"
  by (simp add: ParseMonitStatus_Decode [OF Decode_minimal_doc] serviceTypes_def checkLabels_def)

text \<open>
  C2, as the code has it.  After a monitor fetch and decode that succeed, the exporter
  that \<^verbatim>\<open>Collect\<close> leaves has \<open>up\<close> at 1 and one per-check gauge for every distinct key
  (check name, type name, monitored) among the decoded services, built from the empty
  vector; each holds \<^verbatim>\<open>float64\<close> of the status of the last service with its key, which is
  the status when that is below \<open>2 ^ 53\<close> in magnitude.  There are as many gauges as
  services when the keys of the services are pairwise distinct.  \<^verbatim>\<open>Collect\<close> returns the
  metrics of that exporter whenever the messaging fetch returns.
\<close>

theorem Collect_rebuilds_checks:
  assumes "fst (FetchMonitStatus w (config e)) = Returned (Inr data)"
    and "ParseMonitStatus w data = Some (parsed, None)"
  shows "up (fst (snd (Exporter_Collect w e))) = Float64 1
         \<and> checkStatus (fst (snd (Exporter_Collect w e))) = setChecks (MonitServices parsed) []
         \<and> distinct (map fst (setChecks (MonitServices parsed) []))
         \<and> fst ` set (setChecks (MonitServices parsed) []) = checkLabels ` set (MonitServices parsed)
         \<and> length (setChecks (MonitServices parsed) [])
             = card (checkLabels ` set (MonitServices parsed))
         \<and> (\<forall>s \<in> set (MonitServices parsed).
               map_of (setChecks (MonitServices parsed) []) (checkLabels s)
                 = Some (float64 (Status (last (filter (\<lambda>s'. checkLabels s' = checkLabels s)
                      (MonitServices parsed)))))
               \<and> (\<bar>Status s\<bar> < 2 ^ 53 \<longrightarrow> float64 (Status s) = Float64 (Status s)))
         \<and> (distinct (map checkLabels (MonitServices parsed)) \<longrightarrow>
               length (setChecks (MonitServices parsed) []) = length (MonitServices parsed)
               \<and> (\<forall>s \<in> set (MonitServices parsed).
                     map_of (setChecks (MonitServices parsed) []) (checkLabels s)
                       = Some (float64 (Status s))))
         \<and> ((\<exists>r. fst (FetchAndParseEjabberdStatus w (config e)) = Returned r) \<longrightarrow>
               fst (Exporter_Collect w e)
                 = Returned (collected (fst (snd (Exporter_Collect w e)))))"
proof -
  let ?services = "MonitServices parsed"
  let ?g = "setChecks ?services []"
  have d: "distinct (map fst ?g)"
    by (rule setChecks_distinct) simp
  have k: "fst ` set ?g = checkLabels ` set ?services"
    by (simp add: setChecks_keys)
  have n: "length ?g = card (checkLabels ` set ?services)"
    using distinct_keys_length [OF d] k by simp
  have m: "map_of ?g (checkLabels s)
      = Some (float64 (Status (last (filter (\<lambda>s'. checkLabels s' = checkLabels s) ?services))))"
    if "s \<in> set ?services" for s
  proof -
    have "filter (\<lambda>s'. checkLabels s' = checkLabels s) ?services \<noteq> []"
      using that by (auto simp: filter_empty_conv)
    then show ?thesis by (simp add: setChecks_map_of)
  qed
  have x: "length ?g = length ?services
      \<and> (\<forall>s \<in> set ?services. map_of ?g (checkLabels s) = Some (float64 (Status s)))"
    if dist: "distinct (map checkLabels ?services)"
  proof
    have "card (checkLabels ` set ?services) = length (map checkLabels ?services)"
      using distinct_card [OF dist] by simp
    with n show "length ?g = length ?services" by simp
    show "\<forall>s \<in> set ?services. map_of ?g (checkLabels s) = Some (float64 (Status s))"
    proof
      fix s assume s: "s \<in> set ?services"
      have "filter (\<lambda>s'. checkLabels s' = checkLabels s) ?services = [s]"
        using dist s by (rule filter_distinct_key)
      with m [OF s] show "map_of ?g (checkLabels s) = Some (float64 (Status s))" by simp
    qed
  qed
  have r: "fst (Exporter_Collect w e) = Returned (collected (fst (snd (Exporter_Collect w e))))"
    if "\<exists>r. fst (FetchAndParseEjabberdStatus w (config e)) = Returned r"
    using that Collect_after_parse(1) [OF assms]
    by auto
  show ?thesis
    using Collect_checks_after_parse [OF assms] d k n m x r float64_exact by blast
qed


theorem Collect_rebuilds_checks_witness:
  "fst (FetchMonitStatus
          (answering (ok_body minimal_doc) (ok_body one_session) (Some (one_session_decoded, None)))
          (config busy))
     = Returned (Inr minimal_doc)
   \<and> ParseMonitStatus
         (answering (ok_body minimal_doc) (ok_body one_session) (Some (one_session_decoded, None)))
         minimal_doc
     = Some (\<lparr>MonitServices = [\<lparr>Type = 2, Name = ''check1'', Status = 0, Monitored = ''1''\<rparr>]\<rparr>,
             None)
   \<and> up (fst (snd (Exporter_Collect
         (answering (ok_body minimal_doc) (ok_body one_session) (Some (one_session_decoded, None)))
         busy)))
     = Float64 1
   \<and> checkStatus (fst (snd (Exporter_Collect
         (answering (ok_body minimal_doc) (ok_body one_session) (Some (one_session_decoded, None)))
         busy)))
     = [((''check1'', ''file'', ''1''), Float64 0)]"
proof -
  let ?w = "answering (ok_body minimal_doc) (ok_body one_session) (Some (one_session_decoded, None))"
  have f: "fst (FetchMonitStatus ?w (config busy)) = Returned (Inr minimal_doc)"
    by (rule FetchMonitStatus_ok_body)
  have p: "ParseMonitStatus ?w minimal_doc
      = Some (\<lparr>MonitServices = [\<lparr>Type = 2, Name = ''check1'', Status = 0, Monitored = ''1''\<rparr>]\<rparr>,
              None)"
    by (rule ParseMonitStatus_Decode [OF Decode_minimal_doc])
  show ?thesis
    using Collect_rebuilds_checks [OF f p] f p
    by (simp add: setChecks_examples)
qed

text \<open>
  C2 as it is stated fails: \<open>twin_doc\<close> is fetched and decoded into two services, and
  \<^verbatim>\<open>Collect\<close> leaves and sends one per-check gauge, because both services have the key
  (a, system, 1); the gauge holds the status of the second.
\<close>

theorem Collect_twin_doc_one_gauge:
  "fst (FetchMonitStatus (answering (ok_body twin_doc) (ok_body ''[]'') None) default_config)
     = Returned (Inr twin_doc)
   \<and> ParseMonitStatus (answering (ok_body twin_doc) (ok_body ''[]'') None) twin_doc
     = Some (\<lparr>MonitServices = [\<lparr>Type = 5, Name = ''a'', Status = 0, Monitored = ''1''\<rparr>,
                              \<lparr>Type = 5, Name = ''a'', Status = 512, Monitored = ''1''\<rparr>]\<rparr>,
             None)
   \<and> checkStatus (fst (snd (Exporter_Collect
         (answering (ok_body twin_doc) (ok_body ''[]'') None) (NewExporter default_config))))
     = [((''a'', ''system'', ''1''), Float64 512)]
   \<and> fst (Exporter_Collect
         (answering (ok_body twin_doc) (ok_body ''[]'') None) (NewExporter default_config))
     = Returned
         [Metric ''monit_exporter_up'' [] (Float64 1),
          Metric ''monit_exporter_service_check''
            [(''check_name'', ''a''), (''type'', ''system''), (''monitored'', ''1'')] (Float64 512),
          Metric ''monit_ejabberd_users'' [] (Float64 0)]"
proof -
  let ?w = "answering (ok_body twin_doc) (ok_body ''[]'') None"
  let ?e = "NewExporter default_config"
  have f: "fst (FetchMonitStatus ?w (config ?e)) = Returned (Inr twin_doc)"
    by (rule FetchMonitStatus_ok_body)
  have p: "ParseMonitStatus ?w twin_doc
      = Some (\<lparr>MonitServices = [\<lparr>Type = 5, Name = ''a'', Status = 0, Monitored = ''1''\<rparr>,
                               \<lparr>Type = 5, Name = ''a'', Status = 512, Monitored = ''1''\<rparr>]\<rparr>,
              None)"
    by (rule ParseMonitStatus_Decode [OF Decode_twin_doc])
  have j: "fst (FetchAndParseEjabberdStatus ?w (config ?e)) = Returned (Inr [])"
    by (simp add: FetchAndParseEjabberdStatus_ok_body json_Unmarshal_examples)
  have s: "fst (snd (Exporter_Collect ?w ?e))
      = \<lparr>config = default_config, up = Float64 1,
         checkStatus = [((''a'', ''system'', ''1''), Float64 512)],
         connectedUsersUptime = [], connectedUsersCount = Float64 0\<rparr>"
    unfolding Collect_after_parse(2) [OF f p] j
    by (simp add: setChecks_examples setUptimes_examples float64_small_values NewExporter_def)
  have "fst (Exporter_Collect ?w ?e) = Returned (collected (fst (snd (Exporter_Collect ?w ?e))))"
    using Collect_after_parse(1) [OF f p] j by simp
  then have "fst (Exporter_Collect ?w ?e)
     = Returned
         [Metric ''monit_exporter_up'' [] (Float64 1),
          Metric ''monit_exporter_service_check''
            [(''check_name'', ''a''), (''type'', ''system''), (''monitored'', ''1'')] (Float64 512),
          Metric ''monit_ejabberd_users'' [] (Float64 0)]"
    unfolding s by (simp add: collected_def)
  with f p s show ?thesis
    by (simp add: config_simps)
qed



text \<open>
  C10.  A decoded service whose type is outside 0..8 gets the empty string as its type
  name, and the scrape sets a per-check gauge for it under the key (name, empty string,
  monitored): the exporter that \<^verbatim>\<open>scrape\<close> and \<^verbatim>\<open>Collect\<close> leave has that key, and
  \<^verbatim>\<open>Collect\<close> sends a metric with that type label whenever the messaging fetch
  returns.
\<close>

theorem unmapped_type_is_published_with_empty_label:
  assumes "fst (FetchMonitStatus w (config e)) = Returned (Inr data)"
    and "ParseMonitStatus w data = Some (parsed, None)"
    and "service \<in> set (MonitServices parsed)"
    and "Type service < 0 \<or> 8 < Type service"
  shows "serviceTypes (Type service) = []
         \<and> checkLabels service = (Name service, [], Monitored service)
         \<and> (Name service, [], Monitored service)
             \<in> fst ` set (checkStatus (fst (snd (scrape w e))))
         \<and> (\<exists>v. ((Name service, [], Monitored service), v)
                 \<in> set (checkStatus (fst (snd (Exporter_Collect w e))))
               \<and> Metric ''monit_exporter_service_check''
                     [(''check_name'', Name service), (''type'', []),
                      (''monitored'', Monitored service)] v
                   \<in> set (collected (fst (snd (Exporter_Collect w e))))
               \<and> ((\<exists>r. fst (FetchAndParseEjabberdStatus w (config e)) = Returned r) \<longrightarrow>
                     fst (Exporter_Collect w e)
                       = Returned (collected (fst (snd (Exporter_Collect w e))))))"
proof -
  have t: "serviceTypes (Type service) = []"
    using assms(4) by (auto simp: serviceTypes_def)
  then have l: "checkLabels service = (Name service, [], Monitored service)"
    by (simp add: checkLabels_def)
  have "checkStatus (fst (snd (scrape w e))) = setChecks (MonitServices parsed) (checkStatus e)"
    unfolding scrape_after_parse(2) [OF assms(1,2)]
    by (simp split: outcome.splits sum.splits)
  moreover have "checkLabels service
      \<in> fst ` set (setChecks (MonitServices parsed) (checkStatus e))"
    unfolding setChecks_keys using assms(3) by simp
  ultimately have s: "(Name service, [], Monitored service)
      \<in> fst ` set (checkStatus (fst (snd (scrape w e))))"
    unfolding l by simp
  have "checkLabels service \<in> fst ` set (checkStatus (fst (snd (Exporter_Collect w e))))"
    using assms(3) by (simp add: Collect_checks_after_parse(2) [OF assms(1,2)] setChecks_keys)
  then obtain v where v: "((Name service, [], Monitored service), v)
      \<in> set (checkStatus (fst (snd (Exporter_Collect w e))))"
    unfolding l by auto
  then have m: "Metric ''monit_exporter_service_check''
      [(''check_name'', Name service), (''type'', []), (''monitored'', Monitored service)] v
      \<in> set (collected (fst (snd (Exporter_Collect w e))))"
    by (force simp: collected_def)
  have r: "fst (Exporter_Collect w e) = Returned (collected (fst (snd (Exporter_Collect w e))))"
    if "\<exists>r. fst (FetchAndParseEjabberdStatus w (config e)) = Returned r"
    using that Collect_after_parse(1) [OF assms(1,2)]
    by auto
  show ?thesis
    using t l s v m r by blast
qed

theorem unmapped_type_is_published_with_empty_label_witness:
  "fst (FetchMonitStatus (answering (ok_body unmapped_doc) (ok_body ''[]'') None)
          (config (NewExporter default_config)))
     = Returned (Inr unmapped_doc)
   \<and> ParseMonitStatus (answering (ok_body unmapped_doc) (ok_body ''[]'') None) unmapped_doc
     = Some (\<lparr>MonitServices = [\<lparr>Type = 9, Name = ''eth0'', Status = 0, Monitored = ''1''\<rparr>]\<rparr>,
             None)
   \<and> (''eth0'', [], ''1'')
       \<in> fst ` set (checkStatus (fst (snd (scrape
            (answering (ok_body unmapped_doc) (ok_body ''[]'') None)
            (NewExporter default_config)))))
   \<and> fst (Exporter_Collect (answering (ok_body unmapped_doc) (ok_body ''[]'') None)
            (NewExporter default_config))
     = Returned
         [Metric ''monit_exporter_up'' [] (Float64 1),
          Metric ''monit_exporter_service_check''
            [(''check_name'', ''eth0''), (''type'', []), (''monitored'', ''1'')] (Float64 0),
          Metric ''monit_ejabberd_users'' [] (Float64 0)]"
proof -
  let ?w = "answering (ok_body unmapped_doc) (ok_body ''[]'') None"
  let ?e = "NewExporter default_config"
  let ?s = "\<lparr>Type = 9, Name = ''eth0'', Status = 0, Monitored = ''1''\<rparr>"
  have f: "fst (FetchMonitStatus ?w (config ?e)) = Returned (Inr unmapped_doc)"
    by (rule FetchMonitStatus_ok_body)
  have p: "ParseMonitStatus ?w unmapped_doc = Some (\<lparr>MonitServices = [?s]\<rparr>, None)"
    by (rule ParseMonitStatus_Decode [OF Decode_unmapped_doc])
  have j: "fst (FetchAndParseEjabberdStatus ?w (config ?e)) = Returned (Inr [])"
    by (simp add: FetchAndParseEjabberdStatus_ok_body json_Unmarshal_examples)
  have c: "fst (snd (Exporter_Collect ?w ?e))
      = \<lparr>config = default_config, up = Float64 1,
         checkStatus = [((''eth0'', [], ''1''), Float64 0)],
         connectedUsersUptime = [], connectedUsersCount = Float64 0\<rparr>"
    unfolding Collect_after_parse(2) [OF f p] j
    by (simp add: setChecks_examples setUptimes_examples float64_small_values NewExporter_def)
  have "(''eth0'', [], ''1'') \<in> fst ` set (checkStatus (fst (snd (scrape ?w ?e))))
      \<and> fst (Exporter_Collect ?w ?e) = Returned (collected (fst (snd (Exporter_Collect ?w ?e))))"
    using unmapped_type_is_published_with_empty_label [OF f p, of ?s] j by auto
  then show ?thesis
    using f p unfolding c by (simp add: collected_def)
qed

text \<open>
  C3.  The per-session vector is never reset.  In cycle K ejabberd reports the session
  \<^verbatim>\<open>a@b\<close>; in cycle K+1 it reports none.  After cycle K+1 the exporter still has the
  uptime gauge of \<^verbatim>\<open>a@b\<close> and \<^verbatim>\<open>Collect\<close> sends it, next to a session count of 0.  The
  claim is that the gauge is gone.
\<close>

theorem stale_session_survives_the_next_cycle:
  "connectedUsersUptime (fst (snd (Exporter_Collect
       (answering (ok_body minimal_doc) (ok_body one_session) (Some (one_session_decoded, None)))
       (NewExporter default_config))))
     = [(''a@b'', Float64 120)]
   \<and> fst (snd (Exporter_Collect
       (answering (ok_body minimal_doc) (ok_body ''[]'') None)
       (fst (snd (Exporter_Collect
          (answering (ok_body minimal_doc) (ok_body one_session) (Some (one_session_decoded, None)))
          (NewExporter default_config))))))
     = \<lparr>config = default_config, up = Float64 1,
        checkStatus = [((''check1'', ''file'', ''1''), Float64 0)],
        connectedUsersUptime = [(''a@b'', Float64 120)], connectedUsersCount = Float64 0\<rparr>
   \<and> fst (Exporter_Collect
       (answering (ok_body minimal_doc) (ok_body ''[]'') None)
       (fst (snd (Exporter_Collect
          (answering (ok_body minimal_doc) (ok_body one_session) (Some (one_session_decoded, None)))
          (NewExporter default_config)))))
     = Returned
         [Metric ''monit_exporter_up'' [] (Float64 1),
          Metric ''monit_exporter_service_check''
            [(''check_name'', ''check1''), (''type'', ''file''), (''monitored'', ''1'')] (Float64 0),
          Metric ''monit_ejabberd_users'' [] (Float64 0),
          Metric ''monit_ejabberd_connected_users_uptime'' [(''jid'', ''a@b'')] (Float64 120)]"
proof -
  let ?wK = "answering (ok_body minimal_doc) (ok_body one_session) (Some (one_session_decoded, None))"
  let ?wK1 = "answering (ok_body minimal_doc) (ok_body ''[]'') None"
  let ?e0 = "NewExporter default_config"
  let ?eK = "\<lparr>config = default_config, up = Float64 1,
        checkStatus = [((''check1'', ''file'', ''1''), Float64 0)],
        connectedUsersUptime = [(''a@b'', Float64 120)], connectedUsersCount = Float64 1\<rparr>"
  let ?eK1 = "\<lparr>config = default_config, up = Float64 1,
        checkStatus = [((''check1'', ''file'', ''1''), Float64 0)],
        connectedUsersUptime = [(''a@b'', Float64 120)], connectedUsersCount = Float64 0\<rparr>"
  have pK: "ParseMonitStatus ?wK minimal_doc
      = Some (\<lparr>MonitServices = [\<lparr>Type = 2, Name = ''check1'', Status = 0, Monitored = ''1''\<rparr>]\<rparr>,
              None)"
    by (rule ParseMonitStatus_Decode [OF Decode_minimal_doc])
  have pK1: "ParseMonitStatus ?wK1 minimal_doc
      = Some (\<lparr>MonitServices = [\<lparr>Type = 2, Name = ''check1'', Status = 0, Monitored = ''1''\<rparr>]\<rparr>,
              None)"
    by (rule ParseMonitStatus_Decode [OF Decode_minimal_doc])
  have fK: "fst (FetchMonitStatus ?wK (config ?e0)) = Returned (Inr minimal_doc)"
    by (rule FetchMonitStatus_ok_body)
  have fK1: "fst (FetchMonitStatus ?wK1 (config ?eK)) = Returned (Inr minimal_doc)"
    by (rule FetchMonitStatus_ok_body)
  have jK: "fst (FetchAndParseEjabberdStatus ?wK (config ?e0)) = Returned (Inr one_session_decoded)"
    by (simp add: FetchAndParseEjabberdStatus_ok_body json_Unmarshal_examples)
  have n: "int (length one_session_decoded) = 1"
    by (simp add: one_session_decoded_def)
  have K: "fst (snd (Exporter_Collect ?wK ?e0)) = ?eK"
    unfolding Collect_after_parse(2) [OF fK pK] jK
    by (simp add: setChecks_examples setUptimes_examples float64_small_values NewExporter_def n)
  have jK1: "fst (FetchAndParseEjabberdStatus ?wK1 (config ?eK)) = Returned (Inr [])"
    by (simp add: FetchAndParseEjabberdStatus_ok_body json_Unmarshal_examples)
  have K1: "fst (snd (Exporter_Collect ?wK1 ?eK)) = ?eK1"
    unfolding Collect_after_parse(2) [OF fK1 pK1] jK1
    by (simp add: setChecks_examples setUptimes_examples float64_small_values)
  have "fst (Exporter_Collect ?wK1 ?eK) = Returned (collected (fst (snd (Exporter_Collect ?wK1 ?eK))))"
    using Collect_after_parse(1) [OF fK1 pK1] jK1 by simp
  then have "fst (Exporter_Collect ?wK1 ?eK)
     = Returned
         [Metric ''monit_exporter_up'' [] (Float64 1),
          Metric ''monit_exporter_service_check''
            [(''check_name'', ''check1''), (''type'', ''file''), (''monitored'', ''1'')] (Float64 0),
          Metric ''monit_ejabberd_users'' [] (Float64 0),
          Metric ''monit_ejabberd_connected_users_uptime'' [(''jid'', ''a@b'')] (Float64 120)]"
    unfolding K1 by (simp add: collected_def)
  then show ?thesis
    unfolding K K1 by simp
qed

text \<open>
  No cycle removes a session gauge: the sessions that have a gauge before a scrape have
  one after it.
\<close>

lemma scrape_keeps_session_gauges:
  "fst ` set (connectedUsersUptime e) \<subseteq> fst ` set (connectedUsersUptime (fst (snd (scrape w e))))"
proof -
  obtain a sent where f: "FetchMonitStatus w (config e) = (a, sent)"
    by (cases "FetchMonitStatus w (config e)")
  obtain b sent' where j: "FetchAndParseEjabberdStatus w (config e) = (b, sent')"
    by (cases "FetchAndParseEjabberdStatus w (config e)")
  show ?thesis
    unfolding scrape_def f j
    by (auto simp: Let_def setUptimes_keys j split: outcome.splits sum.splits option.splits)
qed

text \<open>
  C5, as the code has it.  When the request to ejabberd is built, answered and read,
  \<^verbatim>\<open>FetchAndParseEjabberdStatus\<close> returns the slice as \<^verbatim>\<open>json.Unmarshal\<close> left it and a
  nil error, whatever error \<^verbatim>\<open>json.Unmarshal\<close> returned.  So the empty body and the body
  \<^verbatim>\<open>null\<close> give the empty list and no error; and a body that is no JSON, because it is
  white space only or because its first byte cannot begin a JSON value, gives the empty
  list and no error as well, although \<^verbatim>\<open>json.Unmarshal\<close> returned a syntax error.
\<close>

theorem FetchAndParseEjabberdStatus_drops_decode_error:
  assumes "ejabberd_NewRequest w = None"
    and "ejabberd_Do w = Inr resp"
    and "ReadAll resp = Inr data"
  shows "(\<forall>ejabberd err. Unmarshal w data = Some (ejabberd, err) \<longrightarrow>
            FetchAndParseEjabberdStatus w c = (Returned (Inr ejabberd), [ejabberd_request c]))
         \<and> (data = [] \<or> data = ''null'' \<longrightarrow>
               FetchAndParseEjabberdStatus w c = (Returned (Inr []), [ejabberd_request c]))
         \<and> (dropWhile isJSONSpace data = []
               \<or> \<not> beginsValue (hd (dropWhile isJSONSpace data)) \<longrightarrow>
               Unmarshal w data = Some ([], Some SyntaxError)
               \<and> FetchAndParseEjabberdStatus w c = (Returned (Inr []), [ejabberd_request c]))"
proof -
  have r: "FetchAndParseEjabberdStatus w c = (Returned (Inr ejabberd), [ejabberd_request c])"
    if "Unmarshal w data = Some (ejabberd, err)" for ejabberd err
    using assms that by (simp add: FetchAndParseEjabberdStatus_cases)
  have n: "\<exists>err. Unmarshal w data = Some ([], err)" if "data = [] \<or> data = ''null''"
    using that
    by (auto simp: Unmarshal_def json_Unmarshal_def isJSONSpace_def beginsValue_def)
  have m: "Unmarshal w data = Some ([], Some SyntaxError)"
    if "dropWhile isJSONSpace data = [] \<or> \<not> beginsValue (hd (dropWhile isJSONSpace data))"
  proof (cases "dropWhile isJSONSpace data")
    case Nil
    show ?thesis
      unfolding Unmarshal_def json_Unmarshal_def Let_def Nil by simp
  next
    case (Cons c r)
    with that have "\<not> beginsValue c" by simp
    then show ?thesis
      unfolding Unmarshal_def json_Unmarshal_def Let_def Cons by simp
  qed
  show ?thesis
    using r n m by blast
qed

theorem FetchAndParseEjabberdStatus_drops_decode_error_witness:
  "ejabberd_Do (answering (ok_body minimal_doc) (ok_body ''null'') None)
     = Inr \<lparr>StatusCode = 200, ReadAll = Inr ''null''\<rparr>
   \<and> FetchAndParseEjabberdStatus
       (answering (ok_body minimal_doc) (ok_body ''null'') None) default_config
     = (Returned (Inr []), [ejabberd_request default_config])
   \<and> ejabberd_Do (answering (ok_body minimal_doc) (ok_body []) None)
     = Inr \<lparr>StatusCode = 200, ReadAll = Inr []\<rparr>
   \<and> Unmarshal (answering (ok_body minimal_doc) (ok_body []) None) []
     = Some ([], Some SyntaxError)
   \<and> FetchAndParseEjabberdStatus
       (answering (ok_body minimal_doc) (ok_body []) None) default_config
     = (Returned (Inr []), [ejabberd_request default_config])"
  using FetchAndParseEjabberdStatus_drops_decode_error
      [of "answering (ok_body minimal_doc) (ok_body ''null'') None"
        "\<lparr>StatusCode = 200, ReadAll = Inr ''null''\<rparr>" "''null''" default_config]
    FetchAndParseEjabberdStatus_drops_decode_error
      [of "answering (ok_body minimal_doc) (ok_body []) None"
        "\<lparr>StatusCode = 200, ReadAll = Inr []\<rparr>" "[]" default_config]
  by (simp add: answering_def ok_body_def)

text \<open>
  C5 as it is stated fails on its second half: where ejabberd answers with an HTML page,
  which is no JSON, \<^verbatim>\<open>json.Unmarshal\<close> returns a syntax error and leaves the slice nil, and
  \<^verbatim>\<open>FetchAndParseEjabberdStatus\<close> returns the empty list with a nil error.
\<close>

theorem FetchAndParseEjabberdStatus_malformed_json_no_error:
  "Unmarshal (answering (ok_body minimal_doc) (ok_body ''<html>'') None) ''<html>''
     = Some ([], Some SyntaxError)
   \<and> FetchAndParseEjabberdStatus
       (answering (ok_body minimal_doc) (ok_body ''<html>'') None) default_config
     = (Returned (Inr []), [ejabberd_request default_config])"
proof -
  have "Unmarshal (answering (ok_body minimal_doc) (ok_body ''<html>'') None) ''<html>''
     = Some ([], Some SyntaxError)"
    by (simp add: Unmarshal_def json_Unmarshal_examples)
  moreover have "FetchAndParseEjabberdStatus
       (answering (ok_body minimal_doc) (ok_body ''<html>'') None) default_config
     = (Returned (Inr []), [ejabberd_request default_config])"
    by (simp add: FetchAndParseEjabberdStatus_answering ok_body_def json_Unmarshal_examples)
  ultimately show ?thesis by simp
qed

end
